theory Spec2Isabelle
  imports Complex_Main "HOL-Library.Sublist"
begin

section \<open>Data model (types.ts)\<close>

text \<open>
  The two enumerations of \<^verbatim>\<open>types.ts\<close>. Both have a member called \<^verbatim>\<open>NONE\<close>, so
  that member carries the name of its enumeration.
\<close>

datatype EditMode = PIXEL_ART | ANIME | REMOVE_BG | REPLACE_BG | ENHANCE | EditMode_NONE

datatype FilterType = FilterType_NONE | GRAYSCALE | SEPIA | VINTAGE | BLUR

text \<open>
  A JavaScript \<^verbatim>\<open>number\<close> is idealised as a real number; array cursors are integers.
  A \<^verbatim>\<open>string | null\<close> is a \<^typ>\<open>string option\<close>.
\<close>

record Adjustments =
  brightness :: real
  contrast :: real
  saturation :: real
  blur :: real

datatype AdjustmentKey = Key_brightness | Key_contrast | Key_saturation | Key_blur

record CropSettings =
  aspectRatio :: "real option"
  active :: bool

record ProcessingState =
  isProcessing :: bool
  error :: "string option"
  mode :: "EditMode option"

text \<open>One element of \<^verbatim>\<open>ImageState.history\<close>.\<close>

record HistoryEntry =
  entry_current :: "string option"
  entry_adjustments :: Adjustments
  entry_filter :: FilterType

record ImageState =
  id_img :: string
  original :: "string option"
  current :: "string option"
  thumbnail :: "string option"
  mimeType :: string
  name :: string
  adjustments :: Adjustments
  filter_img :: FilterType
  history :: "HistoryEntry list"
  historyIndex :: int

text \<open>
  The argument of \<^verbatim>\<open>pushHistory\<close> is a \<^verbatim>\<open>Partial<ImageState>\<close>, used with the keys
  \<^verbatim>\<open>current\<close>, \<^verbatim>\<open>adjustments\<close> and \<^verbatim>\<open>filter\<close>. A key is absent (\<open>None\<close>) or
  carries a value of its type; the type of \<^verbatim>\<open>current\<close> contains \<^verbatim>\<open>null\<close>, so a present
  \<^verbatim>\<open>current\<close> is again an option.
\<close>

record PartialState =
  p_current :: "string option option"
  p_adjustments :: "Adjustments option"
  p_filter :: "FilterType option"

datatype js_error = Error string | TypeError string

fun message :: "js_error \<Rightarrow> string" where
  "message (Error m) = m"
| "message (TypeError m) = m"

section \<open>Array primitives\<close>

text \<open>\<^verbatim>\<open>xs.slice(0, e)\<close>: a negative end counts from the end of the array.\<close>

definition slice0 :: "'a list \<Rightarrow> int \<Rightarrow> 'a list" where
  "slice0 xs e =
     (let n = int (length xs);
          k = (if e < 0 then max (n + e) 0 else min e n)
      in take (nat k) xs)"

text \<open>\<^verbatim>\<open>xs[i]\<close>: \<^verbatim>\<open>undefined\<close> outside the array is \<open>None\<close>.\<close>

definition index :: "'a list \<Rightarrow> int \<Rightarrow> 'a option" where
  "index xs i = (if 0 \<le> i \<and> i < int (length xs) then Some (xs ! nat i) else None)"

text \<open>JavaScript truthiness of a \<^verbatim>\<open>string | null\<close>: neither \<^verbatim>\<open>null\<close> nor empty.\<close>

definition truthy :: "string option \<Rightarrow> bool" where
  "truthy v = (case v of None \<Rightarrow> False | Some t \<Rightarrow> t \<noteq> [])"

section \<open>Application state (App component)\<close>

text \<open>The background options of a model call (\<^verbatim>\<open>EditOptions\<close>).\<close>

record EditOptions =
  backgroundColor :: "string option"
  backgroundImage :: "string option"

text \<open>
  A call of \<^verbatim>\<open>handleAIEdit\<close> that is suspended at its \<^verbatim>\<open>await\<close>: the identifier of the
  image it was started on and the arguments it passed to \<^verbatim>\<open>performImageEdit\<close>.
\<close>

record PendingEdit =
  pending_imageId :: string
  pending_source :: "string option"
  pending_mimeType :: string
  pending_mode :: EditMode
  pending_options :: EditOptions

text \<open>
  The \<^verbatim>\<open>useState\<close> cells of \<^verbatim>\<open>App\<close> that the handlers read or write, and the list of
  suspended \<^verbatim>\<open>handleAIEdit\<close> calls.
\<close>

record AppState =
  images :: "ImageState list"
  activeImageId :: "string option"
  processing :: ProcessingState
  selectedBgColor :: string
  customBgImage :: "string option"
  cropConfig :: CropSettings
  pending :: "PendingEdit list"

definition DEFAULT_ADJUSTMENTS :: Adjustments where
  "DEFAULT_ADJUSTMENTS = \<lparr>brightness = 100, contrast = 100, saturation = 100, blur = 0\<rparr>"

definition initialState :: AppState where
  "initialState =
     \<lparr>images = [], activeImageId = None,
      processing = \<lparr>isProcessing = False, error = None, mode = None\<rparr>,
      selectedBgColor = ''#ffffff'', customBgImage = None,
      cropConfig = \<lparr>aspectRatio = None, active = False\<rparr>,
      pending = []\<rparr>"

text \<open>\<^verbatim>\<open>images.find(img => img.id === activeImageId)\<close>\<close>

definition activeImage :: "AppState \<Rightarrow> ImageState option" where
  "activeImage s = find (\<lambda>img. Some (id_img img) = activeImageId s) (images s)"

section \<open>History management\<close>

text \<open>The body of the \<^verbatim>\<open>map\<close> callback of \<^verbatim>\<open>pushHistory\<close> for a matching image.\<close>

definition pushHistory_img :: "PartialState \<Rightarrow> ImageState \<Rightarrow> ImageState" where
  "pushHistory_img newState img =
     (let newHistoryItem =
            \<lparr>entry_current =
               (case p_current newState of Some (Some c) \<Rightarrow> Some c | _ \<Rightarrow> current img),
             entry_adjustments =
               (case p_adjustments newState of Some a \<Rightarrow> a | None \<Rightarrow> adjustments img),
             entry_filter =
               (case p_filter newState of Some f \<Rightarrow> f | None \<Rightarrow> filter_img img)\<rparr>;
          newHistory = slice0 (history img) (historyIndex img + 1) @ [newHistoryItem]
      in img\<lparr>current := (case p_current newState of Some c \<Rightarrow> c | None \<Rightarrow> current img),
              adjustments :=
                (case p_adjustments newState of Some a \<Rightarrow> a | None \<Rightarrow> adjustments img),
              filter_img := (case p_filter newState of Some f \<Rightarrow> f | None \<Rightarrow> filter_img img),
              history := newHistory,
              historyIndex := int (length newHistory) - 1\<rparr>)"

definition pushHistory :: "PartialState \<Rightarrow> string \<Rightarrow> AppState \<Rightarrow> AppState" where
  "pushHistory newState imageId s =
     s\<lparr>images :=
         map (\<lambda>img. if id_img img = imageId then pushHistory_img newState img else img)
           (images s)\<rparr>"

text \<open>
  \<^verbatim>\<open>undo\<close> and \<^verbatim>\<open>redo\<close> read the entry from the active image and write it to every image
  with the active image's identifier. Reading a field of an entry that is \<^verbatim>\<open>undefined\<close>
  throws.
\<close>

definition restore :: "HistoryEntry \<Rightarrow> int \<Rightarrow> ImageState \<Rightarrow> ImageState" where
  "restore historicalState i img =
     img\<lparr>current := entry_current historicalState,
         adjustments := entry_adjustments historicalState,
         filter_img := entry_filter historicalState,
         historyIndex := i\<rparr>"

definition undo :: "AppState \<Rightarrow> js_error + AppState" where
  "undo s =
     (case activeImage s of
        None \<Rightarrow> Inr s
      | Some a \<Rightarrow>
          if historyIndex a \<le> 0 then Inr s
          else
            let prevIndex = historyIndex a - 1 in
            (case index (history a) prevIndex of
               None \<Rightarrow> Inl (TypeError ''Cannot read properties of undefined (reading 'current')'')
             | Some historicalState \<Rightarrow>
                 Inr (s\<lparr>images :=
                          map (\<lambda>img. if id_img img = id_img a
                                      then restore historicalState prevIndex img else img)
                            (images s)\<rparr>)))"

definition redo :: "AppState \<Rightarrow> js_error + AppState" where
  "redo s =
     (case activeImage s of
        None \<Rightarrow> Inr s
      | Some a \<Rightarrow>
          if historyIndex a \<ge> int (length (history a)) - 1 then Inr s
          else
            let nextIndex = historyIndex a + 1 in
            (case index (history a) nextIndex of
               None \<Rightarrow> Inl (TypeError ''Cannot read properties of undefined (reading 'current')'')
             | Some historicalState \<Rightarrow>
                 Inr (s\<lparr>images :=
                          map (\<lambda>img. if id_img img = id_img a
                                      then restore historicalState nextIndex img else img)
                            (images s)\<rparr>)))"

section \<open>Editing functions\<close>

fun setKey :: "AdjustmentKey \<Rightarrow> real \<Rightarrow> Adjustments \<Rightarrow> Adjustments" where
  "setKey Key_brightness v a = a\<lparr>brightness := v\<rparr>"
| "setKey Key_contrast v a = a\<lparr>contrast := v\<rparr>"
| "setKey Key_saturation v a = a\<lparr>saturation := v\<rparr>"
| "setKey Key_blur v a = a\<lparr>blur := v\<rparr>"

definition updateAdjustment :: "AdjustmentKey \<Rightarrow> real \<Rightarrow> AppState \<Rightarrow> AppState" where
  "updateAdjustment key v s =
     (case activeImage s of
        None \<Rightarrow> s
      | Some a \<Rightarrow>
          s\<lparr>images :=
              map (\<lambda>img. if id_img img = id_img a
                          then img\<lparr>adjustments := setKey key v (adjustments img)\<rparr> else img)
                (images s)\<rparr>)"

definition setFilter :: "FilterType \<Rightarrow> AppState \<Rightarrow> AppState" where
  "setFilter f s =
     (case activeImage s of
        None \<Rightarrow> s
      | Some a \<Rightarrow>
          pushHistory \<lparr>p_current = None, p_adjustments = None, p_filter = Some f\<rparr> (id_img a) s)"

text \<open>
  \<^verbatim>\<open>reader.onload\<close> of \<^verbatim>\<open>handleFileUpload\<close> for one file: \<open>selected\<close> is the
  \<^verbatim>\<open>activeImageId\<close> that the handler captured when the files were chosen, \<open>newId\<close> is the
  string drawn from \<^verbatim>\<open>Math.random\<close>, \<open>fileType\<close> and \<open>fileName\<close> describe the file and
  \<open>base64\<close> is \<^verbatim>\<open>e.target.result\<close>.
\<close>

definition startsWith :: "string \<Rightarrow> string \<Rightarrow> bool" where
  "startsWith t p = (take (length p) t = p)"

definition handleFileUpload ::
  "string option \<Rightarrow> string \<Rightarrow> string \<Rightarrow> string \<Rightarrow> string option \<Rightarrow> AppState \<Rightarrow> AppState" where
  "handleFileUpload selected newId fileName fileType base64 s =
     (if startsWith fileType ''image/'' \<and> truthy base64 then
        let newImg =
              \<lparr>id_img = newId, original = base64, current = base64, thumbnail = base64,
               mimeType = fileType, name = fileName,
               adjustments = DEFAULT_ADJUSTMENTS, filter_img = FilterType_NONE,
               history = [\<lparr>entry_current = base64, entry_adjustments = DEFAULT_ADJUSTMENTS,
                           entry_filter = FilterType_NONE\<rparr>],
               historyIndex = 0\<rparr>;
            updated = images s @ [newImg]
        in s\<lparr>images := updated,
             activeImageId :=
               (if truthy selected then activeImageId s
                else (case updated of [] \<Rightarrow> activeImageId s | first # _ \<Rightarrow> Some (id_img first)))\<rparr>
      else s)"

section \<open>Model invocation (performImageEdit)\<close>

text \<open>\<^verbatim>\<open>t.split(c)\<close> for a separator of one character.\<close>

fun split :: "char \<Rightarrow> string \<Rightarrow> string list" where
  "split c [] = [[]]"
| "split c (x # xs) =
     (if x = c then [] # split c xs
      else (case split c xs of [] \<Rightarrow> [[x]] | p # ps \<Rightarrow> (x # p) # ps))"

definition stripBase64Prefix :: "string \<Rightarrow> string option" where
  "stripBase64Prefix dataUrl = index (split (CHR '','') dataUrl) 1"

record Blob =
  blob_mimeType :: "string option"
  blob_data :: "string option"

datatype RequestPart = InlineData Blob | Text string

record Request =
  req_model :: string
  req_parts :: "RequestPart list"
  req_imageConfig :: "(string \<times> string) list option"

record ResponsePart =
  inlineData :: "Blob option"
  text_part :: "string option"

record Content =
  parts :: "ResponsePart list option"

record Candidate =
  content :: "Content option"

record Response =
  candidates :: "Candidate list option"

definition PROMPT_PIXEL_ART :: string where
  "PROMPT_PIXEL_ART = ''Convert this image into a pixel art style. Maintain the original subject and composition but render it with clear pixelation and vibrant colors appropriate for pixel art video games.''"

definition PROMPT_ANIME :: string where
  "PROMPT_ANIME = ''Transform this image into a high-quality anime style illustration. Use distinct line work, shading, and anime aesthetic while keeping the subject recognizable.''"

definition PROMPT_REMOVE_BG :: string where
  "PROMPT_REMOVE_BG = ''Isolate the main subject of this image and place it on a pure solid white background. Ensure the edges are clean and precise.''"

definition PROMPT_COMPOSITE :: string where
  "PROMPT_COMPOSITE = ''Composite the subject from the first image onto the background provided in the second image. Adjust lighting and shadows of the subject to match the new environment realistically.''"

definition PROMPT_COLOR :: "string \<Rightarrow> string" where
  "PROMPT_COLOR c = ''Isolate the main subject of this image and place it on a background with the color/style: '' @ c @ ''. Ensure realistic integration.''"

definition PROMPT_SCENIC :: string where
  "PROMPT_SCENIC = ''Place the subject of this image into a scenic outdoor environment.''"

definition PROMPT_ENHANCE :: string where
  "PROMPT_ENHANCE = ''Recreate this image in ultra-high resolution (4K). Enhance fine details, textures, and lighting clarity significantly. Fix any blurriness or noise. Make it look like a professional photograph.''"

definition MODEL_FLASH :: string where
  "MODEL_FLASH = ''gemini-2.5-flash-image''"

definition MODEL_PRO :: string where
  "MODEL_PRO = ''gemini-3-pro-image-preview''"

text \<open>
  Step 3 of \<^verbatim>\<open>performImageEdit\<close>: the model, the parts and the image configuration of the
  request. The defaults are the flash model, the empty prompt and no image configuration;
  the \<^verbatim>\<open>switch\<close> has no case for \<^verbatim>\<open>EditMode.NONE\<close>. An option is truthy when it is a
  string that is not empty (\<open>Some (c # cs)\<close>).
\<close>

definition buildRequest :: "string \<Rightarrow> string \<Rightarrow> EditMode \<Rightarrow> EditOptions \<Rightarrow> Request" where
  "buildRequest imageBase64 mime m options =
     (let first = InlineData \<lparr>blob_mimeType = Some mime, blob_data = stripBase64Prefix imageBase64\<rparr>
      in case m of
           PIXEL_ART \<Rightarrow>
             \<lparr>req_model = MODEL_FLASH, req_parts = [first, Text PROMPT_PIXEL_ART],
              req_imageConfig = None\<rparr>
         | ANIME \<Rightarrow>
             \<lparr>req_model = MODEL_FLASH, req_parts = [first, Text PROMPT_ANIME],
              req_imageConfig = None\<rparr>
         | REMOVE_BG \<Rightarrow>
             \<lparr>req_model = MODEL_FLASH, req_parts = [first, Text PROMPT_REMOVE_BG],
              req_imageConfig = None\<rparr>
         | REPLACE_BG \<Rightarrow>
             (case backgroundImage options of
                Some (b # bs) \<Rightarrow>
                  \<lparr>req_model = MODEL_PRO,
                   req_parts =
                     [first,
                      InlineData
                        \<lparr>blob_mimeType =
                           (case split (CHR '';'') (b # bs) of
                              [] \<Rightarrow> None | p # _ \<Rightarrow> index (split (CHR '':'') p) 1),
                         blob_data = stripBase64Prefix (b # bs)\<rparr>,
                      Text PROMPT_COMPOSITE],
                   req_imageConfig = None\<rparr>
              | _ \<Rightarrow>
                  (case backgroundColor options of
                     Some (c # cs) \<Rightarrow>
                       \<lparr>req_model = MODEL_FLASH,
                        req_parts = [first, Text (PROMPT_COLOR (c # cs))],
                        req_imageConfig = None\<rparr>
                   | _ \<Rightarrow>
                       \<lparr>req_model = MODEL_FLASH, req_parts = [first, Text PROMPT_SCENIC],
                        req_imageConfig = None\<rparr>))
         | ENHANCE \<Rightarrow>
             \<lparr>req_model = MODEL_PRO, req_parts = [first, Text PROMPT_ENHANCE],
              req_imageConfig = Some [(''imageSize'', ''4K''), (''aspectRatio'', ''1:1'')]\<rparr>
         | EditMode_NONE \<Rightarrow>
             \<lparr>req_model = MODEL_FLASH, req_parts = [first, Text []], req_imageConfig = None\<rparr>)"

text \<open>Step 4: the loop over the parts of the first candidate, left at the first image.\<close>

fun firstImage :: "ResponsePart list \<Rightarrow> string" where
  "firstImage [] = []"
| "firstImage (p # ps) =
     (case inlineData p of
        None \<Rightarrow> firstImage ps
      | Some b \<Rightarrow>
          (case blob_data b of
             None \<Rightarrow> firstImage ps
           | Some d \<Rightarrow> if d \<noteq> [] then d else firstImage ps))"

text \<open>
  The guard \<^verbatim>\<open>response.candidates && response.candidates[0].content && ...\<close>: an empty
  array is truthy, and reading \<^verbatim>\<open>content\<close> of its missing first element throws.
\<close>

definition extractImage :: "Response \<Rightarrow> js_error + string" where
  "extractImage response =
     (case candidates response of
        None \<Rightarrow> Inr []
      | Some [] \<Rightarrow> Inl (TypeError ''Cannot read properties of undefined (reading 'content')'')
      | Some (c # _) \<Rightarrow>
          (case content c of
             None \<Rightarrow> Inr []
           | Some ct \<Rightarrow> (case parts ct of None \<Rightarrow> Inr [] | Some ps \<Rightarrow> Inr (firstImage ps))))"

definition NO_IMAGE_DATA :: string where
  "NO_IMAGE_DATA = ''No image data found in response. The model may have returned text only.''"

text \<open>
  What \<^verbatim>\<open>performImageEdit\<close> meets outside the program: \<open>keySelection\<close> is the error with
  which the host's key selection (\<^verbatim>\<open>window.aistudio\<close>) rejects, \<open>None\<close> when the host
  has no such flow or the flow resolves; \<open>generateContent\<close> answers a request with a
  response, or rejects with the message of its error (the empty string when it has none).
  The credential \<^verbatim>\<open>process.env.API_KEY\<close> is taken to be configured, so that the client is
  constructed.
\<close>

record Env =
  keySelection :: "js_error option"
  generateContent :: "Request \<Rightarrow> string + Response"

definition orElse :: "string \<Rightarrow> string \<Rightarrow> string" where
  "orElse m d = (if m = [] then d else m)"

text \<open>
  \<^verbatim>\<open>performImageEdit\<close> returns the requests it has sent together with its result: the
  data URL of the image, or the error it throws.
\<close>

definition performImageEdit ::
  "Env \<Rightarrow> string \<Rightarrow> string \<Rightarrow> EditMode \<Rightarrow> EditOptions \<Rightarrow> Request list \<times> (js_error + string)" where
  "performImageEdit env imageBase64 mime m options =
     (case (if m = ENHANCE \<or> m = REPLACE_BG then keySelection env else None) of
        Some e \<Rightarrow> ([], Inl e)
      | None \<Rightarrow>
          let request = buildRequest imageBase64 mime m options
          in ([request],
              (case generateContent env request of
                 Inl msg \<Rightarrow> Inl (Error (orElse msg ''Failed to process image''))
               | Inr response \<Rightarrow>
                   (case extractImage response of
                      Inl e \<Rightarrow> Inl (Error (orElse (message e) ''Failed to process image''))
                    | Inr outputImageBase64 \<Rightarrow>
                        if outputImageBase64 = []
                        then Inl (Error (orElse NO_IMAGE_DATA ''Failed to process image''))
                        else Inr (''data:image/png;base64,'' @ outputImageBase64)))))"

section \<open>AI processing (handleAIEdit)\<close>

text \<open>
  \<^verbatim>\<open>handleAIEdit\<close> up to its \<^verbatim>\<open>await\<close>: the guard, \<^verbatim>\<open>setProcessing\<close>, and the call of
  \<^verbatim>\<open>performImageEdit\<close> with the arguments read from the state.
\<close>

definition handleAIEdit :: "EditMode \<Rightarrow> AppState \<Rightarrow> AppState" where
  "handleAIEdit m s =
     (case activeImage s of
        None \<Rightarrow> s
      | Some a \<Rightarrow>
          if isProcessing (processing s) then s
          else
            s\<lparr>processing := \<lparr>isProcessing = True, error = None, mode = Some m\<rparr>,
               pending :=
                 pending s @
                   [\<lparr>pending_imageId = id_img a, pending_source = current a,
                     pending_mimeType = mimeType a, pending_mode = m,
                     pending_options =
                       \<lparr>backgroundColor = Some (selectedBgColor s),
                        backgroundImage = customBgImage s\<rparr>\<rparr>]\<rparr>)"

text \<open>
  The call of \<^verbatim>\<open>performImageEdit\<close> made by a suspended \<^verbatim>\<open>handleAIEdit\<close>. The argument
  \<^verbatim>\<open>activeImage.current!\<close> may be \<^verbatim>\<open>null\<close>; then \<^verbatim>\<open>stripBase64Prefix\<close> throws before
  anything is sent.
\<close>

definition invoke :: "Env \<Rightarrow> PendingEdit \<Rightarrow> Request list \<times> (js_error + string)" where
  "invoke env p =
     (case pending_source p of
        None \<Rightarrow>
          (case (if pending_mode p = ENHANCE \<or> pending_mode p = REPLACE_BG
                 then keySelection env else None) of
             Some e \<Rightarrow> ([], Inl e)
           | None \<Rightarrow> ([], Inl (TypeError ''Cannot read properties of null (reading 'split')'')))
      | Some imageBase64 \<Rightarrow>
          performImageEdit env imageBase64 (pending_mimeType p) (pending_mode p)
            (pending_options p))"

text \<open>
  \<^verbatim>\<open>handleAIEdit\<close> after its \<^verbatim>\<open>await\<close>, for the oldest suspended call: the commit on
  success, the \<^verbatim>\<open>catch\<close> on failure.
\<close>

definition handleAIEdit_resume :: "Env \<Rightarrow> AppState \<Rightarrow> AppState" where
  "handleAIEdit_resume env s =
     (case pending s of
        [] \<Rightarrow> s
      | p # ps \<Rightarrow>
          (case snd (invoke env p) of
             Inr resultBase64 \<Rightarrow>
               (pushHistory
                  \<lparr>p_current = Some (Some resultBase64), p_adjustments = None, p_filter = None\<rparr>
                  (pending_imageId p) s)
                 \<lparr>processing := \<lparr>isProcessing = False, error = None, mode = None\<rparr>,
                  customBgImage := None,
                  pending := ps\<rparr>
           | Inl err \<Rightarrow>
               s\<lparr>processing :=
                    \<lparr>isProcessing = False,
                     error = Some (orElse (message err) ''Processing failed.''),
                     mode = None\<rparr>,
                  pending := ps\<rparr>))"

definition handleBgUpload :: "string option \<Rightarrow> AppState \<Rightarrow> AppState" where
  "handleBgUpload res s = (if truthy res then s\<lparr>customBgImage := res\<rparr> else s)"

section \<open>Output generation (generateFinalImage, getCssFilterString)\<close>

record CropRect =
  sx :: real
  sy :: real
  sWidth :: real
  sHeight :: real

text \<open>
  The quotient \<^verbatim>\<open>img.width / img.height\<close> of two dimensions of an image: a number for a
  height other than 0, \<^verbatim>\<open>Infinity\<close> for a positive width over the height 0, and \<^verbatim>\<open>NaN\<close>
  for \<open>0 / 0\<close>. The comparisons of a number with it are those of JavaScript: nothing is
  above \<^verbatim>\<open>Infinity\<close>, and every comparison with \<^verbatim>\<open>NaN\<close> is false.
\<close>

datatype quotient = Finite real | Infinity | NaN

definition imgRatio :: "nat \<Rightarrow> nat \<Rightarrow> quotient" where
  "imgRatio w h =
     (if h \<noteq> 0 then Finite (real w / real h) else if w \<noteq> 0 then Infinity else NaN)"

fun above :: "real \<Rightarrow> quotient \<Rightarrow> bool" where
  "above r (Finite q) = (r > q)"
| "above r Infinity = False"
| "above r NaN = False"

fun below :: "real \<Rightarrow> quotient \<Rightarrow> bool" where
  "below r (Finite q) = (r < q)"
| "below r Infinity = True"
| "below r NaN = False"

fun equals :: "real \<Rightarrow> quotient \<Rightarrow> bool" where
  "equals r (Finite q) = (r = q)"
| "equals r Infinity = False"
| "equals r NaN = False"

text \<open>
  The crop computed in \<^verbatim>\<open>img.onload\<close> from the width and height of the image. The guard
  \<^verbatim>\<open>if (cropConfig.aspectRatio)\<close> is false for \<^verbatim>\<open>null\<close> and for \<open>0\<close>.
\<close>

definition cropRect :: "nat \<Rightarrow> nat \<Rightarrow> CropSettings \<Rightarrow> CropRect" where
  "cropRect w h cfg =
     (let full = \<lparr>sx = 0, sy = 0, sWidth = real w, sHeight = real h\<rparr>
      in case aspectRatio cfg of
           None \<Rightarrow> full
         | Some targetRatio \<Rightarrow>
             if targetRatio = 0 then full
             else
               if above targetRatio (imgRatio w h) then
                 full\<lparr>sHeight := real w / targetRatio,
                      sy := (real h - real w / targetRatio) / 2\<rparr>
               else
                 full\<lparr>sWidth := real h * targetRatio,
                      sx := (real w - real h * targetRatio) / 2\<rparr>)"

text \<open>\<^verbatim>\<open>xs.join(' ')\<close>\<close>

fun join :: "string list \<Rightarrow> string" where
  "join [] = []"
| "join [x] = x"
| "join (x # y # ys) = x @ '' '' @ join (y # ys)"

text \<open>
  The filter strings take the conversion of a number to a string, \<open>str\<close>, as a parameter.
\<close>

definition exportFilter :: "(real \<Rightarrow> string) \<Rightarrow> Adjustments \<Rightarrow> FilterType \<Rightarrow> string" where
  "exportFilter str adj ft =
     (let filters =
            [''brightness('' @ str (brightness adj) @ ''%)'',
             ''contrast('' @ str (contrast adj) @ ''%)'',
             ''saturate('' @ str (saturation adj) @ ''%)'',
             ''blur('' @ str (blur adj) @ ''px)''];
          filters1 = (if ft = GRAYSCALE then filters @ [''grayscale(100%)''] else filters);
          filters2 = (if ft = SEPIA then filters1 @ [''sepia(100%)''] else filters1);
          filters3 = (if ft = VINTAGE
                      then filters2 @ [''sepia(50%) contrast(120%) brightness(90%)'']
                      else filters2)
      in join filters3)"

definition getCssFilterString :: "(real \<Rightarrow> string) \<Rightarrow> Adjustments \<Rightarrow> FilterType \<Rightarrow> string" where
  "getCssFilterString str adj ft =
     (let s0 = ''brightness('' @ str (brightness adj) @ ''%) contrast('' @ str (contrast adj)
                 @ ''%) saturate('' @ str (saturation adj) @ ''%) blur('' @ str (blur adj)
                 @ ''px) '';
          s1 = (if ft = GRAYSCALE then s0 @ ''grayscale(100%)'' else s0);
          s2 = (if ft = SEPIA then s1 @ ''sepia(100%)'' else s1);
          s3 = (if ft = VINTAGE then s2 @ ''sepia(50%) contrast(120%) brightness(90%)'' else s2)
      in s3)"

section \<open>User actions\<close>

text \<open>
  One constructor for each handler bound in the view, one for the continuation of a
  suspended \<^verbatim>\<open>handleAIEdit\<close>, and one for a direct call of \<^verbatim>\<open>pushHistory\<close>. A handler
  reads the state in which it is invoked; a run ends when a handler throws.
\<close>

datatype Action =
    FileLoaded "string option" string string string "string option"
  | SelectImage string
  | Undo
  | Redo
  | UpdateAdjustment AdjustmentKey real
  | SetFilter FilterType
  | Commit PartialState string
  | AIEdit EditMode
  | AIResume Env
  | SelectBgColor string
  | BgLoaded "string option"
  | SetCrop "real option"

fun apply_action :: "Action \<Rightarrow> AppState \<Rightarrow> js_error + AppState" where
  "apply_action (FileLoaded selected newId fileName fileType base64) s =
     Inr (handleFileUpload selected newId fileName fileType base64 s)"
| "apply_action (SelectImage i) s = Inr (s\<lparr>activeImageId := Some i\<rparr>)"
| "apply_action Undo s = undo s"
| "apply_action Redo s = redo s"
| "apply_action (UpdateAdjustment key v) s = Inr (updateAdjustment key v s)"
| "apply_action (SetFilter f) s = Inr (setFilter f s)"
| "apply_action (Commit newState imageId) s = Inr (pushHistory newState imageId s)"
| "apply_action (AIEdit m) s = Inr (handleAIEdit m s)"
| "apply_action (AIResume env) s = Inr (handleAIEdit_resume env s)"
| "apply_action (SelectBgColor c) s = Inr (s\<lparr>selectedBgColor := c, customBgImage := None\<rparr>)"
| "apply_action (BgLoaded res) s = Inr (handleBgUpload res s)"
| "apply_action (SetCrop r) s = Inr (s\<lparr>cropConfig := (cropConfig s)\<lparr>aspectRatio := r\<rparr>\<rparr>)"

fun run :: "Action list \<Rightarrow> AppState \<Rightarrow> js_error + AppState" where
  "run [] s = Inr s"
| "run (a # as) s = (case apply_action a s of Inl e \<Rightarrow> Inl e | Inr s' \<Rightarrow> run as s')"

text \<open>
  The assumptions on the actions of a run: the identifier drawn for a new image is not
  the identifier of an image already loaded, and a direct commit does not carry
  \<^verbatim>\<open>current: null\<close>.
\<close>

fun admissible :: "Action \<Rightarrow> AppState \<Rightarrow> bool" where
  "admissible (FileLoaded selected newId fileName fileType base64) s = (newId \<notin> set (map id_img (images s)))"
| "admissible (Commit newState imageId) s = (p_current newState \<noteq> Some None)"
| "admissible a s = True"

fun admissible_run :: "Action list \<Rightarrow> AppState \<Rightarrow> bool" where
  "admissible_run [] s = True"
| "admissible_run (a # as) s =
     (admissible a s \<and> (case apply_action a s of Inl e \<Rightarrow> True | Inr s' \<Rightarrow> admissible_run as s'))"

text \<open>Repeating a handler that may throw.\<close>

fun repeatedly :: "nat \<Rightarrow> (AppState \<Rightarrow> js_error + AppState) \<Rightarrow> AppState \<Rightarrow> js_error + AppState" where
  "repeatedly 0 f s = Inr s"
| "repeatedly (Suc n) f s = (case f s of Inl e \<Rightarrow> Inl e | Inr s' \<Rightarrow> repeatedly n f s')"

section \<open>Notions of the specification\<close>

text \<open>The visible (current, adjustments, filter) triple of an image session.\<close>

definition visible :: "ImageState \<Rightarrow> HistoryEntry" where
  "visible img =
     \<lparr>entry_current = current img, entry_adjustments = adjustments img,
      entry_filter = filter_img img\<rparr>"

text \<open>A partial state merged over a snapshot: every key that is present replaces the old value.\<close>

definition merged :: "PartialState \<Rightarrow> HistoryEntry \<Rightarrow> HistoryEntry" where
  "merged newState v =
     \<lparr>entry_current = (case p_current newState of Some c \<Rightarrow> c | None \<Rightarrow> entry_current v),
      entry_adjustments =
        (case p_adjustments newState of Some a \<Rightarrow> a | None \<Rightarrow> entry_adjustments v),
      entry_filter = (case p_filter newState of Some f \<Rightarrow> f | None \<Rightarrow> entry_filter v)\<rparr>"

text \<open>The snapshots that a list of commits appends, starting from a visible state.\<close>

fun committed :: "HistoryEntry \<Rightarrow> PartialState list \<Rightarrow> HistoryEntry list" where
  "committed v [] = []"
| "committed v (c # cs) = merged c v # committed (merged c v) cs"

text \<open>
  An aspect ratio is set when the guard \<^verbatim>\<open>if (cropConfig.aspectRatio)\<close> lets it pass: it is
  a number, and not 0.
\<close>

definition ratioSet :: "CropSettings \<Rightarrow> real \<Rightarrow> bool" where
  "ratioSet cfg r = (aspectRatio cfg = Some r \<and> r \<noteq> 0)"

text \<open>The instruction texts and the inline images among the parts of a request.\<close>

fun texts :: "RequestPart list \<Rightarrow> string list" where
  "texts [] = []"
| "texts (InlineData b # ps) = texts ps"
| "texts (Text t # ps) = t # texts ps"

fun inlineImages :: "RequestPart list \<Rightarrow> Blob list" where
  "inlineImages [] = []"
| "inlineImages (InlineData b # ps) = b # inlineImages ps"
| "inlineImages (Text t # ps) = inlineImages ps"

definition instruction :: "Request \<Rightarrow> string list" where
  "instruction r = texts (req_parts r)"

text \<open>
  The ordered content parts of a response (those of its first candidate), and a part that
  carries inline image data.
\<close>

definition contentParts :: "Response \<Rightarrow> ResponsePart list" where
  "contentParts response =
     (case candidates response of
        Some (c # _) \<Rightarrow>
          (case content c of
             Some ct \<Rightarrow> (case parts ct of Some ps \<Rightarrow> ps | None \<Rightarrow> [])
           | None \<Rightarrow> [])
      | _ \<Rightarrow> [])"

definition hasImageData :: "ResponsePart \<Rightarrow> bool" where
  "hasImageData p = (case inlineData p of None \<Rightarrow> False | Some b \<Rightarrow> truthy (blob_data b))"

text \<open>
  What the selection of model and instruction may depend on: the kind, whether a
  background image is present, and the colour string where it is the one that is used.
\<close>

definition selection_inputs :: "EditMode \<Rightarrow> EditOptions \<Rightarrow> EditMode \<times> bool \<times> string option" where
  "selection_inputs m options =
     (m, m = REPLACE_BG \<and> truthy (backgroundImage options),
      if m = REPLACE_BG \<and> \<not> truthy (backgroundImage options) \<and> truthy (backgroundColor options)
      then backgroundColor options else None)"

text \<open>
  The invariant of an image session: the cursor is inside the history
  (\<open>session_bounds\<close>); the entry under the cursor has the visible image and filter
  (\<open>session_image_filter\<close>); the entry under the cursor is the visible triple
  (\<open>session_synced\<close>).
\<close>

definition session_bounds :: "ImageState \<Rightarrow> bool" where
  "session_bounds img = (0 \<le> historyIndex img \<and> historyIndex img < int (length (history img)))"

definition session_image_filter :: "ImageState \<Rightarrow> bool" where
  "session_image_filter img =
     (session_bounds img \<and>
      entry_current (history img ! nat (historyIndex img)) = current img \<and>
      entry_filter (history img ! nat (historyIndex img)) = filter_img img)"

definition session_synced :: "ImageState \<Rightarrow> bool" where
  "session_synced img =
     (session_bounds img \<and> index (history img) (historyIndex img) = Some (visible img))"

text \<open>
  The sessions whose sliders were moved since their last commit, undo or redo: the
  identifiers of those sessions after one action (\<open>s\<close> is the state before it) and after
  a run. An undo at cursor 0 and a redo at the last index leave the list as it is.
\<close>

fun moved :: "Action \<Rightarrow> AppState \<Rightarrow> string list \<Rightarrow> string list" where
  "moved (UpdateAdjustment key v) s ids =
     (case activeImage s of None \<Rightarrow> ids | Some a \<Rightarrow> id_img a # ids)"
| "moved (SetFilter f) s ids =
     (case activeImage s of None \<Rightarrow> ids | Some a \<Rightarrow> removeAll (id_img a) ids)"
| "moved (Commit newState imageId) s ids = removeAll imageId ids"
| "moved Undo s ids =
     (case activeImage s of
        None \<Rightarrow> ids
      | Some a \<Rightarrow> if historyIndex a \<le> 0 then ids else removeAll (id_img a) ids)"
| "moved Redo s ids =
     (case activeImage s of
        None \<Rightarrow> ids
      | Some a \<Rightarrow>
          if historyIndex a \<ge> int (length (history a)) - 1 then ids
          else removeAll (id_img a) ids)"
| "moved (AIResume env) s ids =
     (case pending s of
        [] \<Rightarrow> ids
      | p # ps \<Rightarrow>
          (case snd (invoke env p) of
             Inr r \<Rightarrow> removeAll (pending_imageId p) ids
           | Inl e \<Rightarrow> ids))"
| "moved a s ids = ids"

fun moved_run :: "Action list \<Rightarrow> AppState \<Rightarrow> string list \<Rightarrow> string list" where
  "moved_run [] s ids = ids"
| "moved_run (a # as) s ids =
     (case apply_action a s of Inl e \<Rightarrow> ids | Inr s' \<Rightarrow> moved_run as s' (moved a s ids))"

text \<open>
  The invariant of the list of images: the identifiers are distinct, the entry under the
  cursor of every session has the visible image and filter, and it is the whole visible
  triple for every session whose sliders were not moved.
\<close>

definition history_inv :: "ImageState list \<Rightarrow> string list \<Rightarrow> bool" where
  "history_inv imgs ids =
     (distinct (map id_img imgs) \<and>
      list_all (\<lambda>img. session_image_filter img \<and> (id_img img \<notin> set ids \<longrightarrow> session_synced img))
        imgs)"

text \<open>The single-flight gate: at most one suspended call, and the flag is set exactly then.\<close>

definition gate_inv :: "AppState \<Rightarrow> bool" where
  "gate_inv s = (length (pending s) \<le> 1 \<and> (isProcessing (processing s) \<longleftrightarrow> pending s \<noteq> []))"

section \<open>Example states\<close>

definition example_url :: string where
  "example_url = ''data:image/png;base64,AAAA''"

definition example_entry :: "FilterType \<Rightarrow> HistoryEntry" where
  "example_entry f =
     \<lparr>entry_current = Some example_url, entry_adjustments = DEFAULT_ADJUSTMENTS,
      entry_filter = f\<rparr>"

text \<open>One image with three entries, after two undos.\<close>

definition example_undone :: AppState where
  "example_undone =
     initialState
       \<lparr>images :=
          [\<lparr>id_img = ''k3j9x0a1b'', original = Some example_url, current = Some example_url,
            thumbnail = Some example_url, mimeType = ''image/png'', name = ''a.png'',
            adjustments = DEFAULT_ADJUSTMENTS, filter_img = FilterType_NONE,
            history = [example_entry FilterType_NONE, example_entry SEPIA, example_entry VINTAGE],
            historyIndex = 0\<rparr>],
        activeImageId := Some ''k3j9x0a1b''\<rparr>"

text \<open>
  A response with an image, a response of text only, a response with an empty array of
  candidates, and an environment that answers with a given response.
\<close>

definition example_response :: Response where
  "example_response =
     \<lparr>candidates =
        Some [\<lparr>content =
                 Some \<lparr>parts =
                         Some [\<lparr>inlineData = None, text_part = Some ''Here is the image.''\<rparr>,
                               \<lparr>inlineData =
                                  Some \<lparr>blob_mimeType = Some ''image/png'', blob_data = Some ''QUJD''\<rparr>,
                                text_part = None\<rparr>]\<rparr>\<rparr>]\<rparr>"

definition example_text_response :: Response where
  "example_text_response =
     \<lparr>candidates =
        Some [\<lparr>content =
                 Some \<lparr>parts = Some [\<lparr>inlineData = None, text_part = Some ''I cannot do that.''\<rparr>]\<rparr>\<rparr>]\<rparr>"

definition example_empty_response :: Response where
  "example_empty_response = \<lparr>candidates = Some []\<rparr>"

definition example_env :: "Response \<Rightarrow> Env" where
  "example_env r = \<lparr>keySelection = None, generateContent = (\<lambda>request. Inr r)\<rparr>"

definition example_loaded :: AppState where
  "example_loaded =
     handleFileUpload None ''k3j9x0a1b'' ''a.png'' ''image/png'' (Some example_url) initialState"

definition example_pending :: PendingEdit where
  "example_pending =
     \<lparr>pending_imageId = ''k3j9x0a1b'', pending_source = Some example_url,
      pending_mimeType = ''image/png'', pending_mode = REMOVE_BG,
      pending_options = \<lparr>backgroundColor = Some ''#ffffff'', backgroundImage = None\<rparr>\<rparr>"

text \<open>The image that an upload creates, two commits, and a run that moves a slider.\<close>

definition example_image :: ImageState where
  "example_image =
     \<lparr>id_img = ''k3j9x0a1b'', original = Some example_url, current = Some example_url,
      thumbnail = Some example_url, mimeType = ''image/png'', name = ''a.png'',
      adjustments = DEFAULT_ADJUSTMENTS, filter_img = FilterType_NONE,
      history = [example_entry FilterType_NONE], historyIndex = 0\<rparr>"

definition example_commits :: "PartialState list" where
  "example_commits =
     [\<lparr>p_current = None, p_adjustments = None, p_filter = Some SEPIA\<rparr>,
      \<lparr>p_current = Some (Some ''data:image/png;base64,QUJD''), p_adjustments = None,
       p_filter = None\<rparr>]"

definition example_actions :: "Action list" where
  "example_actions =
     [FileLoaded None ''k3j9x0a1b'' ''a.png'' ''image/png'' (Some example_url),
      UpdateAdjustment Key_brightness 150]"

text \<open>An upload, a slider update and a filter change, and the image that results.\<close>

definition example_resynced :: "Action list" where
  "example_resynced =
     [FileLoaded None ''k3j9x0a1b'' ''a.png'' ''image/png'' (Some example_url),
      UpdateAdjustment Key_brightness 150, SetFilter SEPIA]"

definition example_resynced_image :: ImageState where
  "example_resynced_image =
     example_image
       \<lparr>adjustments := DEFAULT_ADJUSTMENTS\<lparr>brightness := 150\<rparr>,
        filter_img := SEPIA,
        history :=
          [example_entry FilterType_NONE,
           \<lparr>entry_current = Some example_url,
            entry_adjustments = DEFAULT_ADJUSTMENTS\<lparr>brightness := 150\<rparr>,
            entry_filter = SEPIA\<rparr>],
        historyIndex := 1\<rparr>"

text \<open>An upload followed by an AI edit.\<close>

definition example_edit :: "Action list" where
  "example_edit =
     [FileLoaded None ''k3j9x0a1b'' ''a.png'' ''image/png'' (Some example_url), AIEdit REMOVE_BG]"

section \<open>The commit operation\<close>

lemma slice0_take: "0 \<le> e \<Longrightarrow> slice0 xs e = take (nat e) xs"
  by (simp add: slice0_def Let_def min_def)

lemma pushHistory_img_visible:
  "p_current newState \<noteq> Some None \<Longrightarrow>
   visible (pushHistory_img newState img) = merged newState (visible img)"
  by (auto simp: visible_def merged_def pushHistory_img_def Let_def split: option.splits)

lemma pushHistory_img_history:
  "0 \<le> historyIndex img \<Longrightarrow> p_current newState \<noteq> Some None \<Longrightarrow>
   history (pushHistory_img newState img) =
     take (nat (historyIndex img) + 1) (history img) @ [merged newState (visible img)]"
  by (auto simp: visible_def merged_def pushHistory_img_def Let_def slice0_take nat_add_distrib
      split: option.splits)

lemma pushHistory_img_index:
  "historyIndex (pushHistory_img newState img) =
     int (length (history (pushHistory_img newState img))) - 1"
  by (simp add: pushHistory_img_def Let_def)

text \<open>
  Claim C1. Let the image at position \<open>k\<close> carry the identifier that is committed to, let
  its cursor be at least 0, and let the partial state hold a result image, adjustments
  and a filter, each present or left out (a \<^verbatim>\<open>current\<close> that is present is an image, not
  \<^verbatim>\<open>null\<close>). Then \<^verbatim>\<open>pushHistory\<close> makes the partial state merged over the visible triple the
  new visible triple, keeps the entries at the indices 0 to the cursor, appends the merged
  snapshot and moves the cursor to the last index. The entries behind the cursor, which a
  redo could have reached after an undo, are gone.
\<close>

theorem pushHistory_commit:
  assumes "k < length (images s)" and "id_img (images s ! k) = imageId"
    and "0 \<le> historyIndex (images s ! k)" and "p_current newState \<noteq> Some None"
  shows "length (images (pushHistory newState imageId s)) = length (images s) \<and>
         visible (images (pushHistory newState imageId s) ! k) =
           merged newState (visible (images s ! k)) \<and>
         history (images (pushHistory newState imageId s) ! k) =
           take (nat (historyIndex (images s ! k)) + 1) (history (images s ! k))
             @ [merged newState (visible (images s ! k))] \<and>
         historyIndex (images (pushHistory newState imageId s) ! k) =
           int (length (history (images (pushHistory newState imageId s) ! k))) - 1"
  using assms
  by (simp add: pushHistory_def pushHistory_img_visible pushHistory_img_history
      pushHistory_img_index)

theorem pushHistory_commit_witness:
  "0 < length (images example_undone) \<and>
   id_img (images example_undone ! 0) = ''k3j9x0a1b'' \<and>
   0 \<le> historyIndex (images example_undone ! 0) \<and>
   p_current \<lparr>p_current = None, p_adjustments = None, p_filter = Some GRAYSCALE\<rparr> \<noteq> Some None \<and>
   history (images (pushHistory \<lparr>p_current = None, p_adjustments = None, p_filter = Some GRAYSCALE\<rparr>
              ''k3j9x0a1b'' example_undone) ! 0) =
     [example_entry FilterType_NONE, example_entry GRAYSCALE] \<and>
   historyIndex (images (pushHistory \<lparr>p_current = None, p_adjustments = None, p_filter = Some GRAYSCALE\<rparr>
              ''k3j9x0a1b'' example_undone) ! 0) = 1"
proof -
  let ?n = "\<lparr>p_current = None, p_adjustments = None, p_filter = Some GRAYSCALE\<rparr>"
  have h1: "0 < length (images example_undone)"
    by (simp add: example_undone_def)
  have h2: "id_img (images example_undone ! 0) = ''k3j9x0a1b''"
    by (simp add: example_undone_def)
  have h3: "0 \<le> historyIndex (images example_undone ! 0)"
    by (simp add: example_undone_def)
  have h4: "p_current ?n \<noteq> Some None"
    by simp
  have v: "merged ?n (visible (images example_undone ! 0)) = example_entry GRAYSCALE"
    by (simp add: example_undone_def merged_def visible_def example_entry_def)
  have t: "take (nat (historyIndex (images example_undone ! 0)) + 1)
             (history (images example_undone ! 0)) = [example_entry FilterType_NONE]"
    by (simp add: example_undone_def)
  from pushHistory_commit [OF h1 h2 h3 h4] v t h1 h2 h3 h4 show ?thesis
    by simp
qed

section \<open>Adjustment updates\<close>

text \<open>
  Claim C4. \<^verbatim>\<open>updateAdjustment\<close>, for any key and value, leaves the history list and the
  cursor of every image as they were; the images differ from the old ones in the
  \<^verbatim>\<open>adjustments\<close> field only, and nothing else of the state changes.
\<close>

theorem updateAdjustment_frame:
  "map history (images (updateAdjustment key v s)) = map history (images s) \<and>
   map historyIndex (images (updateAdjustment key v s)) = map historyIndex (images s) \<and>
   map (\<lambda>img. img\<lparr>adjustments := a0\<rparr>) (images (updateAdjustment key v s)) =
     map (\<lambda>img. img\<lparr>adjustments := a0\<rparr>) (images s) \<and>
   (updateAdjustment key v s)\<lparr>images := images s\<rparr> = s"
  by (auto simp: updateAdjustment_def split: option.splits)

section \<open>Filter strings\<close>

text \<open>
  Claim C10. For all adjustments, the preset \<^verbatim>\<open>FilterType.BLUR\<close> gives the same filter
  string as \<^verbatim>\<open>FilterType.NONE\<close>, in the preview (\<^verbatim>\<open>getCssFilterString\<close>) and in the export
  (\<^verbatim>\<open>generateFinalImage\<close>): the preset adds no term, and the only blur term is the one of
  the blur slider.
\<close>

theorem blur_preset_adds_nothing:
  "getCssFilterString str adj BLUR = getCssFilterString str adj FilterType_NONE \<and>
   exportFilter str adj BLUR = exportFilter str adj FilterType_NONE"
  by (simp add: getCssFilterString_def exportFilter_def)

section \<open>The crop rectangle\<close>

text \<open>
  Claim C5. For a source image of width \<open>w\<close> and height \<open>h\<close> and every crop setting,
  with \<open>w / h\<close> the quotient as the code computes it: if the aspect ratio \<open>r\<close> is set and
  above \<open>w / h\<close>, the full width is kept and the height \<open>w / r\<close> is centred
  (\<open>sy = (h - w / r) / 2\<close>, \<open>sx = 0\<close>); if it is set and below \<open>w / h\<close>, the full height
  is kept and the width \<open>h * r\<close> is centred (\<open>sx = (w - h * r) / 2\<close>, \<open>sy = 0\<close>); if it
  is set and equal to \<open>w / h\<close>, the rectangle is the full source; without a ratio
  (\<^verbatim>\<open>null\<close>, or 0, which the guard does not let pass) the rectangle is the full source.
  For a positive height the quotient is the number \<open>w / h\<close>.
\<close>

theorem cropRect_centered:
  "(ratioSet cfg r \<and> above r (imgRatio w h) \<longrightarrow>
      cropRect w h cfg =
        \<lparr>sx = 0, sy = (real h - real w / r) / 2, sWidth = real w, sHeight = real w / r\<rparr>) \<and>
   (ratioSet cfg r \<and> below r (imgRatio w h) \<longrightarrow>
      cropRect w h cfg =
        \<lparr>sx = (real w - real h * r) / 2, sy = 0, sWidth = real h * r, sHeight = real h\<rparr>) \<and>
   (ratioSet cfg r \<and> equals r (imgRatio w h) \<longrightarrow>
      cropRect w h cfg = \<lparr>sx = 0, sy = 0, sWidth = real w, sHeight = real h\<rparr>) \<and>
   (aspectRatio cfg = None \<or> aspectRatio cfg = Some 0 \<longrightarrow>
      cropRect w h cfg = \<lparr>sx = 0, sy = 0, sWidth = real w, sHeight = real h\<rparr>) \<and>
   (0 < h \<longrightarrow> imgRatio w h = Finite (real w / real h))"
  by (cases "h = 0"; cases "w = 0")
    (auto simp: cropRect_def ratioSet_def imgRatio_def Let_def)

theorem cropRect_centered_witness:
  "cropRect 800 600 \<lparr>aspectRatio = None, active = False\<rparr> =
     \<lparr>sx = 0, sy = 0, sWidth = 800, sHeight = 600\<rparr> \<and>
   cropRect 800 600 \<lparr>aspectRatio = Some (16 / 9), active = False\<rparr> =
     \<lparr>sx = 0, sy = 75, sWidth = 800, sHeight = 450\<rparr> \<and>
   cropRect 800 600 \<lparr>aspectRatio = Some 1, active = False\<rparr> =
     \<lparr>sx = 100, sy = 0, sWidth = 600, sHeight = 600\<rparr> \<and>
   cropRect 800 600 \<lparr>aspectRatio = Some (4 / 3), active = False\<rparr> =
     \<lparr>sx = 0, sy = 0, sWidth = 800, sHeight = 600\<rparr> \<and>
   cropRect 800 0 \<lparr>aspectRatio = Some 1, active = False\<rparr> =
     \<lparr>sx = 400, sy = 0, sWidth = 0, sHeight = 0\<rparr>"
proof -
  have r: "imgRatio 800 600 = Finite (4 / 3)" "imgRatio 800 0 = Infinity"
    by (simp_all add: imgRatio_def)
  have a: "aspectRatio \<lparr>aspectRatio = None, active = False\<rparr> = None"
    and b: "ratioSet \<lparr>aspectRatio = Some (16 / 9), active = False\<rparr> (16 / 9) \<and>
            above (16 / 9) (imgRatio 800 600)"
    and c: "ratioSet \<lparr>aspectRatio = Some 1, active = False\<rparr> 1 \<and> below 1 (imgRatio 800 600)"
    and d: "ratioSet \<lparr>aspectRatio = Some (4 / 3), active = False\<rparr> (4 / 3) \<and>
            equals (4 / 3) (imgRatio 800 600)"
    and e: "ratioSet \<lparr>aspectRatio = Some 1, active = False\<rparr> 1 \<and> below 1 (imgRatio 800 0)"
    by (simp_all add: ratioSet_def r)
  from cropRect_centered [of "\<lparr>aspectRatio = None, active = False\<rparr>" 0 800 600] a
  have 1: "cropRect 800 600 \<lparr>aspectRatio = None, active = False\<rparr> =
     \<lparr>sx = 0, sy = 0, sWidth = real 800, sHeight = real 600\<rparr>"
    by blast
  from cropRect_centered [of "\<lparr>aspectRatio = Some (16 / 9), active = False\<rparr>" "16 / 9" 800 600] b
  have 2: "cropRect 800 600 \<lparr>aspectRatio = Some (16 / 9), active = False\<rparr> =
     \<lparr>sx = 0, sy = (real 600 - real 800 / (16 / 9)) / 2, sWidth = real 800,
      sHeight = real 800 / (16 / 9)\<rparr>"
    by blast
  from cropRect_centered [of "\<lparr>aspectRatio = Some 1, active = False\<rparr>" 1 800 600] c
  have 3: "cropRect 800 600 \<lparr>aspectRatio = Some 1, active = False\<rparr> =
     \<lparr>sx = (real 800 - real 600 * 1) / 2, sy = 0, sWidth = real 600 * 1, sHeight = real 600\<rparr>"
    by blast
  from cropRect_centered [of "\<lparr>aspectRatio = Some (4 / 3), active = False\<rparr>" "4 / 3" 800 600] d
  have 4: "cropRect 800 600 \<lparr>aspectRatio = Some (4 / 3), active = False\<rparr> =
     \<lparr>sx = 0, sy = 0, sWidth = real 800, sHeight = real 600\<rparr>"
    by blast
  from cropRect_centered [of "\<lparr>aspectRatio = Some 1, active = False\<rparr>" 1 800 0] e
  have 5: "cropRect 800 0 \<lparr>aspectRatio = Some 1, active = False\<rparr> =
     \<lparr>sx = (real 800 - real 0 * 1) / 2, sy = 0, sWidth = real 0 * 1, sHeight = real 0\<rparr>"
    by blast
  from 1 2 3 4 5 show ?thesis
    by simp
qed

section \<open>Selection of model and instruction\<close>

lemma truthy_iff: "truthy v \<longleftrightarrow> (\<exists>c cs. v = Some (c # cs))"
  by (cases v) (auto simp: truthy_def neq_Nil_conv)

lemma buildRequest_composite:
  "truthy (backgroundImage options) \<Longrightarrow>
   req_model (buildRequest imageBase64 mime REPLACE_BG options) = ''gemini-3-pro-image-preview'' \<and>
   instruction (buildRequest imageBase64 mime REPLACE_BG options) = [PROMPT_COMPOSITE] \<and>
   length (inlineImages (req_parts (buildRequest imageBase64 mime REPLACE_BG options))) = 2"
  by (auto simp: truthy_iff buildRequest_def instruction_def MODEL_PRO_def)

lemma buildRequest_color:
  "\<not> truthy (backgroundImage options) \<Longrightarrow> backgroundColor options = Some c \<Longrightarrow> c \<noteq> [] \<Longrightarrow>
   req_model (buildRequest imageBase64 mime REPLACE_BG options) = ''gemini-2.5-flash-image'' \<and>
   instruction (buildRequest imageBase64 mime REPLACE_BG options) = [PROMPT_COLOR c]"
  by (auto simp: truthy_def buildRequest_def instruction_def MODEL_FLASH_def neq_Nil_conv split: option.splits list.splits)

lemma buildRequest_scenic:
  "\<not> truthy (backgroundImage options) \<Longrightarrow> \<not> truthy (backgroundColor options) \<Longrightarrow>
   req_model (buildRequest imageBase64 mime REPLACE_BG options) = ''gemini-2.5-flash-image'' \<and>
   instruction (buildRequest imageBase64 mime REPLACE_BG options) = [PROMPT_SCENIC]"
  by (auto simp: truthy_def buildRequest_def instruction_def MODEL_FLASH_def neq_Nil_conv split: option.splits list.splits)

lemma buildRequest_model:
  "req_model (buildRequest imageBase64 mime m options) =
     (if m = ENHANCE \<or> (m = REPLACE_BG \<and> truthy (backgroundImage options))
      then MODEL_PRO else MODEL_FLASH)"
  by (cases m)
    (auto simp: truthy_def buildRequest_def Let_def split: option.splits list.splits)

lemma buildRequest_imageConfig:
  "req_imageConfig (buildRequest imageBase64 mime m options) =
     (if m = ENHANCE then Some [(''imageSize'', ''4K''), (''aspectRatio'', ''1:1'')] else None)"
  by (cases m)
    (auto simp: buildRequest_def Let_def split: option.splits list.splits)

lemma buildRequest_instruction:
  "instruction (buildRequest imageBase64 mime m options) =
     [case m of
        PIXEL_ART \<Rightarrow> PROMPT_PIXEL_ART
      | ANIME \<Rightarrow> PROMPT_ANIME
      | REMOVE_BG \<Rightarrow> PROMPT_REMOVE_BG
      | REPLACE_BG \<Rightarrow>
          (if truthy (backgroundImage options) then PROMPT_COMPOSITE
           else if truthy (backgroundColor options)
           then (case backgroundColor options of Some c \<Rightarrow> PROMPT_COLOR c | None \<Rightarrow> [])
           else PROMPT_SCENIC)
      | ENHANCE \<Rightarrow> PROMPT_ENHANCE
      | EditMode_NONE \<Rightarrow> []]"
  by (cases m)
    (auto simp: truthy_def instruction_def buildRequest_def Let_def split: option.splits list.splits)

lemma buildRequest_selection:
  assumes "selection_inputs m options = selection_inputs m' options'"
  shows "req_model (buildRequest imageBase64 mime m options) = req_model (buildRequest imageBase64' mime' m' options') \<and>
   instruction (buildRequest imageBase64 mime m options) = instruction (buildRequest imageBase64' mime' m' options') \<and>
   req_imageConfig (buildRequest imageBase64 mime m options) = req_imageConfig (buildRequest imageBase64' mime' m' options')"
proof -
  from assms have m: "m' = m"
    by (simp add: selection_inputs_def)
  from assms show ?thesis
    unfolding buildRequest_model buildRequest_imageConfig buildRequest_instruction m
    by (cases m) (auto simp: selection_inputs_def truthy_def split: if_splits)
qed

text \<open>
  Claim C6, as the code has it. For \<^verbatim>\<open>REPLACE_BG\<close>: with a background image (a string
  that is not empty) the request names the model \<^verbatim>\<open>gemini-3-pro-image-preview\<close>, carries
  two inline images and the compositing instruction, whatever the colour; otherwise, with
  a colour string that is not empty, it carries the coloured-background instruction, which
  contains that string; otherwise the scenic instruction. Model, instruction and image
  configuration are the same for two calls that agree on the kind, on the presence of a
  background image and on the colour string that is used: they depend neither on the bytes
  or type of the primary image nor on the bytes of the background image.
\<close>

theorem replace_background_selection:
  "(truthy (backgroundImage options) \<longrightarrow>
      req_model (buildRequest imageBase64 mime REPLACE_BG options) = ''gemini-3-pro-image-preview'' \<and>
      instruction (buildRequest imageBase64 mime REPLACE_BG options) = [PROMPT_COMPOSITE] \<and>
      length (inlineImages (req_parts (buildRequest imageBase64 mime REPLACE_BG options))) = 2) \<and>
   (\<not> truthy (backgroundImage options) \<and> backgroundColor options = Some c \<and> c \<noteq> [] \<longrightarrow>
      req_model (buildRequest imageBase64 mime REPLACE_BG options) = ''gemini-2.5-flash-image'' \<and>
      instruction (buildRequest imageBase64 mime REPLACE_BG options) = [PROMPT_COLOR c]) \<and>
   (\<not> truthy (backgroundImage options) \<and> \<not> truthy (backgroundColor options) \<longrightarrow>
      req_model (buildRequest imageBase64 mime REPLACE_BG options) = ''gemini-2.5-flash-image'' \<and>
      instruction (buildRequest imageBase64 mime REPLACE_BG options) = [PROMPT_SCENIC]) \<and>
   (selection_inputs m options = selection_inputs m' options' \<longrightarrow>
      req_model (buildRequest imageBase64 mime m options) =
        req_model (buildRequest imageBase64' mime' m' options') \<and>
      instruction (buildRequest imageBase64 mime m options) =
        instruction (buildRequest imageBase64' mime' m' options') \<and>
      req_imageConfig (buildRequest imageBase64 mime m options) =
        req_imageConfig (buildRequest imageBase64' mime' m' options'))"
  using buildRequest_composite [of options imageBase64 mime]
    buildRequest_color [of options c imageBase64 mime]
    buildRequest_scenic [of options imageBase64 mime]
    buildRequest_selection [of m options m' options' imageBase64 mime imageBase64' mime']
  by blast

theorem replace_background_selection_witness:
  "req_model (buildRequest example_url ''image/png'' REPLACE_BG
      \<lparr>backgroundColor = Some ''#ffffff'', backgroundImage = Some ''data:image/jpeg;base64,BBBB''\<rparr>)
     = ''gemini-3-pro-image-preview'' \<and>
   instruction (buildRequest example_url ''image/png'' REPLACE_BG
      \<lparr>backgroundColor = Some ''#ffffff'', backgroundImage = Some ''data:image/jpeg;base64,BBBB''\<rparr>)
     = [PROMPT_COMPOSITE] \<and>
   instruction (buildRequest example_url ''image/png'' REPLACE_BG
      \<lparr>backgroundColor = Some ''#ffffff'', backgroundImage = None\<rparr>)
     = [PROMPT_COLOR ''#ffffff''] \<and>
   instruction (buildRequest example_url ''image/png'' REPLACE_BG
      \<lparr>backgroundColor = None, backgroundImage = None\<rparr>)
     = [PROMPT_SCENIC] \<and>
   selection_inputs REPLACE_BG
      \<lparr>backgroundColor = Some ''#ffffff'', backgroundImage = Some ''data:image/jpeg;base64,BBBB''\<rparr> =
   selection_inputs REPLACE_BG
      \<lparr>backgroundColor = None, backgroundImage = Some ''data:image/png;base64,CCCC''\<rparr> \<and>
   instruction (buildRequest example_url ''image/png'' REPLACE_BG
      \<lparr>backgroundColor = Some ''#ffffff'', backgroundImage = Some ''data:image/jpeg;base64,BBBB''\<rparr>) =
   instruction (buildRequest ''data:image/webp;base64,DDDD'' ''image/webp'' REPLACE_BG
      \<lparr>backgroundColor = None, backgroundImage = Some ''data:image/png;base64,CCCC''\<rparr>)"
proof -
  let ?both = "\<lparr>backgroundColor = Some ''#ffffff'', backgroundImage = Some ''data:image/jpeg;base64,BBBB''\<rparr>"
  let ?color = "\<lparr>backgroundColor = Some ''#ffffff'', backgroundImage = None\<rparr>"
  let ?none = "\<lparr>backgroundColor = None, backgroundImage = None\<rparr>"
  let ?other = "\<lparr>backgroundColor = None, backgroundImage = Some ''data:image/png;base64,CCCC''\<rparr>"
  have sel: "selection_inputs REPLACE_BG ?both = selection_inputs REPLACE_BG ?other"
    by (simp add: selection_inputs_def truthy_def)
  have t1: "truthy (backgroundImage ?both)"
    and t2: "\<not> truthy (backgroundImage ?color) \<and> backgroundColor ?color = Some ''#ffffff'' \<and> ''#ffffff'' \<noteq> []"
    and t3: "\<not> truthy (backgroundImage ?none) \<and> \<not> truthy (backgroundColor ?none)"
    by (simp_all add: truthy_def)
  from replace_background_selection [of ?both example_url "''image/png''" "''x''" REPLACE_BG
      REPLACE_BG ?other "''data:image/webp;base64,DDDD''" "''image/webp''"] t1 sel
  have a: "req_model (buildRequest example_url ''image/png'' REPLACE_BG ?both) = ''gemini-3-pro-image-preview''"
    and b: "instruction (buildRequest example_url ''image/png'' REPLACE_BG ?both) = [PROMPT_COMPOSITE]"
    and c: "instruction (buildRequest example_url ''image/png'' REPLACE_BG ?both) =
            instruction (buildRequest ''data:image/webp;base64,DDDD'' ''image/webp'' REPLACE_BG ?other)"
    by blast+
  from replace_background_selection [of ?color example_url "''image/png''" "''#ffffff''" REPLACE_BG
      REPLACE_BG ?color example_url "''image/png''"] t2
  have d: "instruction (buildRequest example_url ''image/png'' REPLACE_BG ?color) = [PROMPT_COLOR ''#ffffff'']"
    by blast
  from replace_background_selection [of ?none example_url "''image/png''" "''x''" REPLACE_BG
      REPLACE_BG ?none example_url "''image/png''"] t3
  have e: "instruction (buildRequest example_url ''image/png'' REPLACE_BG ?none) = [PROMPT_SCENIC]"
    by blast
  from a b c d e sel show ?thesis
    by blast
qed


text \<open>
  Claim C6 as stated fails: two \<^verbatim>\<open>REPLACE_BG\<close> calls with no background image and a colour
  present agree on the kind and on which options are present, and their instructions
  differ, because the instruction contains the colour string.
\<close>

theorem replace_background_color_counterexample:
  "truthy (backgroundImage \<lparr>backgroundColor = Some ''#ffffff'', backgroundImage = None\<rparr>) =
     truthy (backgroundImage \<lparr>backgroundColor = Some ''#000000'', backgroundImage = None\<rparr>) \<and>
   truthy (backgroundColor \<lparr>backgroundColor = Some ''#ffffff'', backgroundImage = None\<rparr>) =
     truthy (backgroundColor \<lparr>backgroundColor = Some ''#000000'', backgroundImage = None\<rparr>) \<and>
   instruction (buildRequest example_url ''image/png'' REPLACE_BG
       \<lparr>backgroundColor = Some ''#ffffff'', backgroundImage = None\<rparr>) \<noteq>
   instruction (buildRequest example_url ''image/png'' REPLACE_BG
       \<lparr>backgroundColor = Some ''#000000'', backgroundImage = None\<rparr>)"
  by (simp add: truthy_def buildRequest_instruction PROMPT_COLOR_def)

section \<open>Model calls and their outcome\<close>

lemma firstImage_none: "\<forall>p \<in> set ps. \<not> hasImageData p \<Longrightarrow> firstImage ps = []"
  by (induction ps) (auto simp: hasImageData_def truthy_def split: option.splits)

lemma performImageEdit_sends_REMOVE_BG:
  "fst (performImageEdit env imageBase64 mime REMOVE_BG options) =
     [buildRequest imageBase64 mime REMOVE_BG options]"
  by (simp add: performImageEdit_def Let_def)

lemma PROMPT_REMOVE_BG_phrase: "sublist ''pure solid white background'' PROMPT_REMOVE_BG"
proof -
  have "PROMPT_REMOVE_BG =
          ''Isolate the main subject of this image and place it on a '' @
          ''pure solid white background'' @ ''. Ensure the edges are clean and precise.''"
    by (simp add: PROMPT_REMOVE_BG_def)
  then show ?thesis
    unfolding sublist_def by blast
qed

lemma images_pushHistory_nth:
  "k < length (images s) \<Longrightarrow> id_img (images s ! k) = imageId \<Longrightarrow>
   images (pushHistory newState imageId s) ! k = pushHistory_img newState (images s ! k)"
  by (simp add: pushHistory_def)

lemma resume_success:
  assumes "pending s = p # ps" and "snd (invoke env p) = Inr resultBase64"
  shows "images (handleAIEdit_resume env s) =
           images (pushHistory \<lparr>p_current = Some (Some resultBase64), p_adjustments = None,
                               p_filter = None\<rparr> (pending_imageId p) s)"
    and "processing (handleAIEdit_resume env s) = \<lparr>isProcessing = False, error = None, mode = None\<rparr>"
    and "pending (handleAIEdit_resume env s) = ps"
  using assms by (simp_all add: handleAIEdit_resume_def pushHistory_def)

lemma resume_failure:
  assumes "pending s = p # ps" and "snd (invoke env p) = Inl err"
  shows "images (handleAIEdit_resume env s) = images s"
    and "processing (handleAIEdit_resume env s) =
           \<lparr>isProcessing = False, error = Some (orElse (message err) ''Processing failed.''), mode = None\<rparr>"
    and "pending (handleAIEdit_resume env s) = ps"
  using assms by (simp_all add: handleAIEdit_resume_def)

lemma extractImage_no_image_data:
  "candidates response \<noteq> Some [] \<Longrightarrow> \<forall>p \<in> set (contentParts response). \<not> hasImageData p \<Longrightarrow>
   extractImage response = Inr []"
  by (auto simp: extractImage_def contentParts_def firstImage_none split: option.splits list.splits)

lemma example_loaded_images:
  "images example_loaded =
     [\<lparr>id_img = ''k3j9x0a1b'', original = Some example_url, current = Some example_url,
       thumbnail = Some example_url, mimeType = ''image/png'', name = ''a.png'',
       adjustments = DEFAULT_ADJUSTMENTS, filter_img = FilterType_NONE,
       history = [example_entry FilterType_NONE], historyIndex = 0\<rparr>]"
  and example_loaded_active: "activeImageId example_loaded = Some ''k3j9x0a1b''"
  and example_loaded_rest: "processing example_loaded = \<lparr>isProcessing = False, error = None, mode = None\<rparr>"
    "pending example_loaded = []" "selectedBgColor example_loaded = ''#ffffff''"
    "customBgImage example_loaded = None"
  by (simp_all add: example_loaded_def handleFileUpload_def initialState_def startsWith_def
      truthy_def example_url_def example_entry_def Let_def)

lemma example_started:
  "images (handleAIEdit REMOVE_BG example_loaded) = images example_loaded"
  "pending (handleAIEdit REMOVE_BG example_loaded) = [example_pending]"
  by (simp_all add: handleAIEdit_def activeImage_def example_loaded_images example_loaded_active
      example_loaded_rest example_pending_def)

lemma example_invoke:
  "snd (invoke (example_env example_response) example_pending) = Inr ''data:image/png;base64,QUJD''"
  "snd (invoke (example_env example_text_response) example_pending) = Inl (Error NO_IMAGE_DATA)"
  by (simp_all add: invoke_def example_pending_def performImageEdit_def example_env_def
      example_response_def example_text_response_def extractImage_def Let_def orElse_def NO_IMAGE_DATA_def)

lemma instruction_REMOVE_BG:
  "instruction (buildRequest imageBase64 mime REMOVE_BG options) = [PROMPT_REMOVE_BG]"
  by (simp add: instruction_def buildRequest_def)

lemma handleAIEdit_starts:
  "activeImage s = Some a \<Longrightarrow> \<not> isProcessing (processing s) \<Longrightarrow>
   pending (handleAIEdit m s) =
     pending s @
       [\<lparr>pending_imageId = id_img a, pending_source = current a,
         pending_mimeType = mimeType a, pending_mode = m,
         pending_options =
           \<lparr>backgroundColor = Some (selectedBgColor s), backgroundImage = customBgImage s\<rparr>\<rparr>]"
  by (simp add: handleAIEdit_def)

lemma invoke_sends_REMOVE_BG:
  "pending_mode p = REMOVE_BG \<Longrightarrow> pending_source p = Some imageBase64 \<Longrightarrow>
   fst (invoke env p) =
     [buildRequest imageBase64 (pending_mimeType p) REMOVE_BG (pending_options p)]"
  by (simp add: invoke_def performImageEdit_def Let_def)

lemma extractImage_Inr: "extractImage response = Inr d \<Longrightarrow> d = firstImage (contentParts response)"
  by (auto simp: extractImage_def contentParts_def split: option.splits list.splits)

lemma invoke_returns_REMOVE_BG:
  assumes "pending_mode p = REMOVE_BG" and "snd (invoke env p) = Inr resultBase64"
  shows "\<exists>imageBase64 response.
           pending_source p = Some imageBase64 \<and>
           fst (invoke env p) =
             [buildRequest imageBase64 (pending_mimeType p) REMOVE_BG (pending_options p)] \<and>
           generateContent env
             (buildRequest imageBase64 (pending_mimeType p) REMOVE_BG (pending_options p)) =
             Inr response \<and>
           firstImage (contentParts response) \<noteq> [] \<and>
           resultBase64 = ''data:image/png;base64,'' @ firstImage (contentParts response)"
proof (cases "pending_source p")
  case None
  with assms show ?thesis
    by (simp add: invoke_def)
next
  case (Some imageBase64)
  let ?request = "buildRequest imageBase64 (pending_mimeType p) REMOVE_BG (pending_options p)"
  from assms Some obtain response where
    g: "generateContent env ?request = Inr response"
    by (cases "generateContent env ?request")
      (simp_all add: invoke_def performImageEdit_def Let_def)
  with assms Some obtain d where d: "extractImage response = Inr d"
    by (cases "extractImage response") (simp_all add: invoke_def performImageEdit_def Let_def)
  with assms Some g have "d \<noteq> []" "resultBase64 = ''data:image/png;base64,'' @ d"
    by (simp_all add: invoke_def performImageEdit_def Let_def split: if_splits)
  with extractImage_Inr [OF d] g Some invoke_sends_REMOVE_BG [OF assms(1) Some, of env]
  show ?thesis
    by simp
qed

text \<open>
  Claim C7. A call of \<^verbatim>\<open>performImageEdit\<close> with the kind \<^verbatim>\<open>REMOVE_BG\<close> sends exactly one
  request, and the instruction of that request contains \<^verbatim>\<open>pure solid white background\<close>.
  \<^verbatim>\<open>handleAIEdit\<close> with that kind suspends on one such call for the visible image of the
  active session, and that call sends exactly the one request built from this image. When
  the call returns an image, it is the first inline image of the response to that request,
  as a data URL, and every image with the identifier the call was started on (cursor at
  least 0) keeps its entries up to the cursor and gains one entry behind them: the
  returned image with the adjustments and the filter that were visible before. That entry
  is the new visible state.
\<close>

theorem remove_background_call_and_commit:
  "(fst (performImageEdit env imageBase64 mime REMOVE_BG options) =
      [buildRequest imageBase64 mime REMOVE_BG options] \<and>
    (\<exists>t. instruction (buildRequest imageBase64 mime REMOVE_BG options) = [t] \<and>
         sublist ''pure solid white background'' t)) \<and>
   (activeImage s0 = Some a \<and> \<not> isProcessing (processing s0) \<longrightarrow>
      pending (handleAIEdit REMOVE_BG s0) =
        pending s0 @
          [\<lparr>pending_imageId = id_img a, pending_source = current a,
            pending_mimeType = mimeType a, pending_mode = REMOVE_BG,
            pending_options =
              \<lparr>backgroundColor = Some (selectedBgColor s0),
               backgroundImage = customBgImage s0\<rparr>\<rparr>]) \<and>
   (pending_mode p = REMOVE_BG \<and> pending_source p = Some imageBase64 \<longrightarrow>
      fst (invoke env p) =
        [buildRequest imageBase64 (pending_mimeType p) REMOVE_BG (pending_options p)]) \<and>
   (pending s = p # ps \<and> pending_mode p = REMOVE_BG \<and>
    snd (invoke env p) = Inr resultBase64 \<and>
    k < length (images s) \<and> id_img (images s ! k) = pending_imageId p \<and>
    0 \<le> historyIndex (images s ! k) \<longrightarrow>
      (\<exists>source response.
         pending_source p = Some source \<and>
         fst (invoke env p) =
           [buildRequest source (pending_mimeType p) REMOVE_BG (pending_options p)] \<and>
         generateContent env
           (buildRequest source (pending_mimeType p) REMOVE_BG (pending_options p)) =
           Inr response \<and>
         firstImage (contentParts response) \<noteq> [] \<and>
         resultBase64 = ''data:image/png;base64,'' @ firstImage (contentParts response)) \<and>
      history (images (handleAIEdit_resume env s) ! k) =
        take (nat (historyIndex (images s ! k)) + 1) (history (images s ! k)) @
          [\<lparr>entry_current = Some resultBase64,
            entry_adjustments = adjustments (images s ! k),
            entry_filter = filter_img (images s ! k)\<rparr>] \<and>
      historyIndex (images (handleAIEdit_resume env s) ! k) =
        int (length (history (images (handleAIEdit_resume env s) ! k))) - 1 \<and>
      visible (images (handleAIEdit_resume env s) ! k) =
        \<lparr>entry_current = Some resultBase64,
         entry_adjustments = adjustments (images s ! k),
         entry_filter = filter_img (images s ! k)\<rparr>)"
proof -
  have 1: "fst (performImageEdit env imageBase64 mime REMOVE_BG options) =
      [buildRequest imageBase64 mime REMOVE_BG options] \<and>
    (\<exists>t. instruction (buildRequest imageBase64 mime REMOVE_BG options) = [t] \<and>
         sublist ''pure solid white background'' t)"
    using PROMPT_REMOVE_BG_phrase performImageEdit_sends_REMOVE_BG instruction_REMOVE_BG
    by simp
  have 4: "history (images (handleAIEdit_resume env s) ! k) =
        take (nat (historyIndex (images s ! k)) + 1) (history (images s ! k)) @
          [\<lparr>entry_current = Some resultBase64,
            entry_adjustments = adjustments (images s ! k),
            entry_filter = filter_img (images s ! k)\<rparr>] \<and>
      historyIndex (images (handleAIEdit_resume env s) ! k) =
        int (length (history (images (handleAIEdit_resume env s) ! k))) - 1 \<and>
      visible (images (handleAIEdit_resume env s) ! k) =
        \<lparr>entry_current = Some resultBase64,
         entry_adjustments = adjustments (images s ! k),
         entry_filter = filter_img (images s ! k)\<rparr>"
    if "pending s = p # ps" "snd (invoke env p) = Inr resultBase64"
      "k < length (images s)" "id_img (images s ! k) = pending_imageId p"
      "0 \<le> historyIndex (images s ! k)"
    using that
    by (simp add: resume_success images_pushHistory_nth pushHistory_img_def Let_def slice0_take
        nat_add_distrib visible_def)
  from 1 4 handleAIEdit_starts [of s0 a REMOVE_BG] invoke_sends_REMOVE_BG [of p imageBase64 env]
    invoke_returns_REMOVE_BG [of p env resultBase64]
  show ?thesis
    by blast
qed


theorem remove_background_call_and_commit_witness:
  "pending (handleAIEdit REMOVE_BG example_loaded) = [example_pending] \<and>
   fst (invoke (example_env example_response) example_pending) =
     [buildRequest example_url ''image/png'' REMOVE_BG
        \<lparr>backgroundColor = Some ''#ffffff'', backgroundImage = None\<rparr>] \<and>
   snd (invoke (example_env example_response) example_pending) = Inr ''data:image/png;base64,QUJD'' \<and>
   history (images (handleAIEdit_resume (example_env example_response)
                      (handleAIEdit REMOVE_BG example_loaded)) ! 0) =
     [example_entry FilterType_NONE,
      \<lparr>entry_current = Some ''data:image/png;base64,QUJD'',
       entry_adjustments = DEFAULT_ADJUSTMENTS, entry_filter = FilterType_NONE\<rparr>] \<and>
   historyIndex (images (handleAIEdit_resume (example_env example_response)
                      (handleAIEdit REMOVE_BG example_loaded)) ! 0) = 1"
proof -
  let ?s = "handleAIEdit REMOVE_BG example_loaded"
  let ?env = "example_env example_response"
  let ?o = "\<lparr>backgroundColor = Some ''#ffffff'', backgroundImage = None\<rparr>"
  note t = remove_background_call_and_commit [of ?env example_url "''image/png''" ?o
      example_loaded example_image example_pending ?s "[]" "''data:image/png;base64,QUJD''" 0]
  have a: "activeImage example_loaded = Some example_image \<and>
           \<not> isProcessing (processing example_loaded)"
    by (simp add: activeImage_def example_loaded_images example_loaded_active example_image_def
        example_loaded_rest)
  have f: "id_img example_image = ''k3j9x0a1b''" "current example_image = Some example_url"
    "mimeType example_image = ''image/png''" "pending example_loaded = []"
    "selectedBgColor example_loaded = ''#ffffff''" "customBgImage example_loaded = None"
    by (simp_all add: example_image_def example_loaded_rest)
  from t a have "pending ?s =
        pending example_loaded @
          [\<lparr>pending_imageId = id_img example_image, pending_source = current example_image,
            pending_mimeType = mimeType example_image, pending_mode = REMOVE_BG,
            pending_options =
              \<lparr>backgroundColor = Some (selectedBgColor example_loaded),
               backgroundImage = customBgImage example_loaded\<rparr>\<rparr>]"
    by blast
  then have 1: "pending ?s = [example_pending]"
    by (simp add: f example_pending_def)
  have b: "pending_mode example_pending = REMOVE_BG \<and> pending_source example_pending = Some example_url"
    and g: "pending_mimeType example_pending = ''image/png''" "pending_options example_pending = ?o"
    by (simp_all add: example_pending_def)
  from t b have 2: "fst (invoke ?env example_pending) =
        [buildRequest example_url (pending_mimeType example_pending) REMOVE_BG
           (pending_options example_pending)]"
    by blast
  have h: "pending ?s = example_pending # [] \<and> pending_mode example_pending = REMOVE_BG \<and>
           snd (invoke ?env example_pending) = Inr ''data:image/png;base64,QUJD'' \<and>
           0 < length (images ?s) \<and> id_img (images ?s ! 0) = pending_imageId example_pending \<and>
           0 \<le> historyIndex (images ?s ! 0)"
  proof -
    have "id_img (images ?s ! 0) = pending_imageId example_pending"
      and "0 < length (images ?s)" and "0 \<le> historyIndex (images ?s ! 0)"
      by (simp_all add: example_started example_loaded_images example_pending_def)
    with 1 b example_invoke show ?thesis
      by simp
  qed
  have v: "history (images ?s ! 0) = [example_entry FilterType_NONE]"
    "historyIndex (images ?s ! 0) = 0" "adjustments (images ?s ! 0) = DEFAULT_ADJUSTMENTS"
    "filter_img (images ?s ! 0) = FilterType_NONE"
    by (simp_all add: example_started example_loaded_images)
  from t h have
    "history (images (handleAIEdit_resume ?env ?s) ! 0) =
        take (nat (historyIndex (images ?s ! 0)) + 1) (history (images ?s ! 0)) @
          [\<lparr>entry_current = Some ''data:image/png;base64,QUJD'',
            entry_adjustments = adjustments (images ?s ! 0),
            entry_filter = filter_img (images ?s ! 0)\<rparr>] \<and>
      historyIndex (images (handleAIEdit_resume ?env ?s) ! 0) =
        int (length (history (images (handleAIEdit_resume ?env ?s) ! 0))) - 1"
    by blast
  with v have 3: "history (images (handleAIEdit_resume ?env ?s) ! 0) =
     [example_entry FilterType_NONE,
      \<lparr>entry_current = Some ''data:image/png;base64,QUJD'',
       entry_adjustments = DEFAULT_ADJUSTMENTS, entry_filter = FilterType_NONE\<rparr>] \<and>
     historyIndex (images (handleAIEdit_resume ?env ?s) ! 0) = 1"
    by simp
  from 1 2 3 h g show ?thesis
    by simp
qed

text \<open>
  What holds of failing calls. For a response whose candidates are not an empty array and
  whose content parts carry no inline image data (text only, or no parts at all),
  \<^verbatim>\<open>performImageEdit\<close> fails with the fixed message. \<^verbatim>\<open>handleAIEdit\<close> does not touch the
  images before its \<^verbatim>\<open>await\<close>, and when the call fails, with whatever error, the
  continuation leaves every image as it was (history, cursor and visible state) and only
  records the message in \<^verbatim>\<open>processing.error\<close>.
\<close>

lemma no_image_data_fails:
  "(generateContent env (buildRequest imageBase64 mime m options) = Inr response \<and>
    (m = ENHANCE \<or> m = REPLACE_BG \<longrightarrow> keySelection env = None) \<and>
    candidates response \<noteq> Some [] \<and>
    (\<forall>p \<in> set (contentParts response). \<not> hasImageData p) \<longrightarrow>
      snd (performImageEdit env imageBase64 mime m options) =
        Inl (Error ''No image data found in response. The model may have returned text only.'')) \<and>
   images (handleAIEdit m s) = images s \<and>
   (pending s = p # rest \<and> snd (invoke env p) = Inl err \<longrightarrow>
      images (handleAIEdit_resume env s) = images s \<and>
      processing (handleAIEdit_resume env s) =
        \<lparr>isProcessing = False, error = Some (orElse (message err) ''Processing failed.''),
         mode = None\<rparr>)"
  by (auto simp: performImageEdit_def Let_def extractImage_no_image_data orElse_def NO_IMAGE_DATA_def
      handleAIEdit_def resume_failure split: option.splits)

lemma no_image_data_fails_text_only:
  "snd (performImageEdit (example_env example_text_response) example_url ''image/png'' REMOVE_BG
         \<lparr>backgroundColor = Some ''#ffffff'', backgroundImage = None\<rparr>) =
     Inl (Error ''No image data found in response. The model may have returned text only.'') \<and>
   images (handleAIEdit_resume (example_env example_text_response)
             (handleAIEdit REMOVE_BG example_loaded)) = images example_loaded \<and>
   error (processing (handleAIEdit_resume (example_env example_text_response)
             (handleAIEdit REMOVE_BG example_loaded))) =
     Some ''No image data found in response. The model may have returned text only.''"
proof -
  let ?s = "handleAIEdit REMOVE_BG example_loaded"
  let ?env = "example_env example_text_response"
  let ?o = "\<lparr>backgroundColor = Some ''#ffffff'', backgroundImage = None\<rparr>"
  have a: "generateContent ?env (buildRequest example_url ''image/png'' REMOVE_BG ?o) =
             Inr example_text_response \<and>
           (REMOVE_BG = ENHANCE \<or> REMOVE_BG = REPLACE_BG \<longrightarrow> keySelection ?env = None) \<and>
           candidates example_text_response \<noteq> Some [] \<and>
           (\<forall>p \<in> set (contentParts example_text_response). \<not> hasImageData p)"
    by (simp add: example_env_def example_text_response_def hasImageData_def contentParts_def)
  have b: "pending ?s = example_pending # [] \<and>
           snd (invoke ?env example_pending) = Inl (Error NO_IMAGE_DATA)"
    by (simp add: example_started example_invoke)
  from no_image_data_fails [of ?env example_url "''image/png''" REMOVE_BG ?o example_text_response
      ?s example_pending "[]" "Error NO_IMAGE_DATA"] a b
  show ?thesis
    by (simp add: example_started orElse_def NO_IMAGE_DATA_def)
qed

text \<open>
  Claim C8, at a response with an empty array of candidates. Such a response has no
  content parts, so none with inline image data, and the claim asks for the fixed message.
  The guard \<^verbatim>\<open>response.candidates && response.candidates[0].content\<close> passes the empty
  array and reads \<^verbatim>\<open>content\<close> of \<^verbatim>\<open>undefined\<close>; the \<^verbatim>\<open>catch\<close> rethrows with the message of
  that \<^verbatim>\<open>TypeError\<close>, which is what \<^verbatim>\<open>processing.error\<close> then shows. A response without the
  \<^verbatim>\<open>candidates\<close> key takes the other branch of the same guard and gets the fixed message.
\<close>

theorem empty_candidates_type_error:
  "contentParts example_empty_response = [] \<and>
   snd (performImageEdit (example_env example_empty_response) example_url ''image/png'' REMOVE_BG
          \<lparr>backgroundColor = Some ''#ffffff'', backgroundImage = None\<rparr>) =
     Inl (Error ''Cannot read properties of undefined (reading 'content')'') \<and>
   snd (performImageEdit (example_env example_empty_response) example_url ''image/png'' REMOVE_BG
          \<lparr>backgroundColor = Some ''#ffffff'', backgroundImage = None\<rparr>) \<noteq>
     Inl (Error ''No image data found in response. The model may have returned text only.'') \<and>
   error (processing (handleAIEdit_resume (example_env example_empty_response)
             (handleAIEdit REMOVE_BG example_loaded))) =
     Some ''Cannot read properties of undefined (reading 'content')''"
proof -
  have i: "snd (invoke (example_env example_empty_response) example_pending) =
        Inl (Error ''Cannot read properties of undefined (reading 'content')'')"
    by (simp add: invoke_def example_pending_def performImageEdit_def example_env_def
      example_empty_response_def extractImage_def Let_def orElse_def)
  have "pending (handleAIEdit REMOVE_BG example_loaded) = example_pending # []"
    by (simp add: example_started)
  from resume_failure(2) [OF this i] have
    "error (processing (handleAIEdit_resume (example_env example_empty_response)
             (handleAIEdit REMOVE_BG example_loaded))) =
     Some ''Cannot read properties of undefined (reading 'content')''"
    by (simp add: orElse_def)
  then show ?thesis
    by (simp add: contentParts_def example_empty_response_def performImageEdit_def example_env_def
      extractImage_def Let_def orElse_def)
qed

section \<open>Undo and redo\<close>

lemma find_map_preserve:
  "(\<And>x. P (g x) = P x) \<Longrightarrow> find P (map g xs) = map_option g (find P xs)"
  by (induction xs) auto

lemma activeImage_map:
  assumes "\<And>img. id_img (g img) = id_img img"
  shows "activeImage (s\<lparr>images := map g (images s)\<rparr>) = map_option g (activeImage s)"
  unfolding activeImage_def
  using find_map_preserve [of "\<lambda>img. Some (id_img img) = activeImageId s" g] assms
  by simp

lemma id_img_restore [simp]: "id_img (restore h i img) = id_img img"
  by (simp add: restore_def)

lemma id_img_pushHistory_img [simp]: "id_img (pushHistory_img newState img) = id_img img"
  by (simp add: pushHistory_img_def Let_def)

lemma activeImage_pushHistory:
  "activeImage s = Some a \<Longrightarrow> id_img a = i \<Longrightarrow>
   activeImage (pushHistory newState i s) = Some (pushHistory_img newState a)"
  unfolding pushHistory_def
  by (subst activeImage_map) simp_all

lemma undo_step:
  assumes "activeImage s = Some a" and "0 < historyIndex a"
    and "historyIndex a \<le> int (length (history a))"
  shows "\<exists>s'. undo s = Inr s' \<and>
           activeImage s' =
             Some (restore (history a ! nat (historyIndex a - 1)) (historyIndex a - 1) a)"
proof -
  let ?h = "history a ! nat (historyIndex a - 1)"
  let ?g = "\<lambda>img. if id_img img = id_img a then restore ?h (historyIndex a - 1) img else img"
  from assms have i: "index (history a) (historyIndex a - 1) = Some ?h"
    by (simp add: index_def)
  with assms have u: "undo s = Inr (s\<lparr>images := map ?g (images s)\<rparr>)"
    by (simp add: undo_def Let_def)
  have "activeImage (s\<lparr>images := map ?g (images s)\<rparr>) = map_option ?g (activeImage s)"
    by (rule activeImage_map) simp
  with assms u show ?thesis
    by simp
qed

lemma redo_step:
  assumes "activeImage s = Some a" and "0 \<le> historyIndex a + 1"
    and "historyIndex a < int (length (history a)) - 1"
  shows "\<exists>s'. redo s = Inr s' \<and>
           activeImage s' =
             Some (restore (history a ! nat (historyIndex a + 1)) (historyIndex a + 1) a)"
proof -
  let ?h = "history a ! nat (historyIndex a + 1)"
  let ?g = "\<lambda>img. if id_img img = id_img a then restore ?h (historyIndex a + 1) img else img"
  from assms have i: "index (history a) (historyIndex a + 1) = Some ?h"
    by (simp add: index_def)
  with assms have u: "redo s = Inr (s\<lparr>images := map ?g (images s)\<rparr>)"
    by (simp add: redo_def Let_def)
  have "activeImage (s\<lparr>images := map ?g (images s)\<rparr>) = map_option ?g (activeImage s)"
    by (rule activeImage_map) simp
  with assms u show ?thesis
    by simp
qed

lemma restore_fields [simp]:
  "history (restore h i img) = history img"
  "historyIndex (restore h i img) = i"
  "visible (restore h i img) = h"
  by (simp_all add: restore_def visible_def)

lemma restore_restore [simp]: "restore h i (restore h' i' img) = restore h i img"
  by (simp add: restore_def)

lemma restore_visible [simp]: "restore (visible img) (historyIndex img) img = img"
  by (simp add: restore_def visible_def)

lemma undo_times:
  "activeImage s = Some a \<Longrightarrow> int n \<le> historyIndex a \<Longrightarrow>
   historyIndex a < int (length (history a)) \<Longrightarrow>
   visible a = history a ! nat (historyIndex a) \<Longrightarrow>
   \<exists>s' a'. repeatedly n undo s = Inr s' \<and> activeImage s' = Some a' \<and>
     a' = restore (history a ! nat (historyIndex a - int n)) (historyIndex a - int n) a"
proof (induction n arbitrary: s a)
  case 0
  then show ?case
    using restore_visible [of a] by simp
next
  case (Suc n)
  let ?a1 = "restore (history a ! nat (historyIndex a - 1)) (historyIndex a - 1) a"
  from Suc.prems undo_step [of s a] obtain s1 where
    s1: "undo s = Inr s1" "activeImage s1 = Some ?a1"
    by auto
  from Suc.prems have "int n \<le> historyIndex ?a1" "historyIndex ?a1 < int (length (history ?a1))"
    "visible ?a1 = history ?a1 ! nat (historyIndex ?a1)"
    by simp_all
  from Suc.IH [OF s1(2) this] obtain s' a' where
    "repeatedly n undo s1 = Inr s'" "activeImage s' = Some a'"
    "a' = restore (history a ! nat (historyIndex a - 1 - int n)) (historyIndex a - 1 - int n) a"
    by auto
  with s1 show ?case
    by (simp add: algebra_simps)
qed

lemma redo_times:
  "activeImage s = Some a \<Longrightarrow> 0 \<le> historyIndex a \<Longrightarrow>
   historyIndex a + int n < int (length (history a)) \<Longrightarrow>
   visible a = history a ! nat (historyIndex a) \<Longrightarrow>
   \<exists>s' a'. repeatedly n redo s = Inr s' \<and> activeImage s' = Some a' \<and>
     a' = restore (history a ! nat (historyIndex a + int n)) (historyIndex a + int n) a"
proof (induction n arbitrary: s a)
  case 0
  then show ?case
    using restore_visible [of a] by simp
next
  case (Suc n)
  let ?a1 = "restore (history a ! nat (historyIndex a + 1)) (historyIndex a + 1) a"
  from Suc.prems redo_step [of s a] obtain s1 where
    s1: "redo s = Inr s1" "activeImage s1 = Some ?a1"
    by auto
  from Suc.prems have "0 \<le> historyIndex ?a1" "historyIndex ?a1 + int n < int (length (history ?a1))"
    "visible ?a1 = history ?a1 ! nat (historyIndex ?a1)"
    by simp_all
  from Suc.IH [OF s1(2) this] obtain s' a' where
    "repeatedly n redo s1 = Inr s'" "activeImage s' = Some a'"
    "a' = restore (history a ! nat (historyIndex a + 1 + int n)) (historyIndex a + 1 + int n) a"
    by auto
  with s1 show ?case
    by (simp add: algebra_simps)
qed

lemma pushHistory_img_at_end:
  assumes "history a \<noteq> []" and "historyIndex a = int (length (history a)) - 1"
    and "p_current newState \<noteq> Some None"
  shows "history (pushHistory_img newState a) = history a @ [merged newState (visible a)]"
    and "historyIndex (pushHistory_img newState a) = int (length (history a))"
    and "visible (pushHistory_img newState a) = merged newState (visible a)"
proof -
  from assms have "0 \<le> historyIndex a"
    by (cases "history a") simp_all
  with assms show "history (pushHistory_img newState a) = history a @ [merged newState (visible a)]"
    by (simp add: pushHistory_img_history nat_diff_distrib)
  then show "historyIndex (pushHistory_img newState a) = int (length (history a))"
    by (simp add: pushHistory_img_index)
  from assms show "visible (pushHistory_img newState a) = merged newState (visible a)"
    by (simp add: pushHistory_img_visible)
qed

lemma commits_fold:
  "activeImage s = Some a \<Longrightarrow> id_img a = i \<Longrightarrow> history a \<noteq> [] \<Longrightarrow>
   historyIndex a = int (length (history a)) - 1 \<Longrightarrow> visible a = last (history a) \<Longrightarrow>
   \<forall>newState \<in> set commits. p_current newState \<noteq> Some None \<Longrightarrow>
   \<exists>a'. activeImage (fold (\<lambda>newState. pushHistory newState i) commits s) = Some a' \<and>
     history a' = history a @ committed (visible a) commits \<and>
     historyIndex a' = int (length (history a')) - 1 \<and>
     visible a' = last (history a')"
proof (induction commits arbitrary: s a)
  case Nil
  then show ?case by simp
next
  case (Cons c commits)
  let ?a1 = "pushHistory_img c a"
  from Cons.prems have c: "p_current c \<noteq> Some None"
    by simp
  note e = pushHistory_img_at_end [OF Cons.prems(3) Cons.prems(4) c]
  from Cons.prems have 1: "activeImage (pushHistory c i s) = Some ?a1"
    by (simp add: activeImage_pushHistory)
  from Cons.prems have 2: "id_img ?a1 = i"
    by simp
  from e have 3: "history ?a1 \<noteq> []" "historyIndex ?a1 = int (length (history ?a1)) - 1"
    "visible ?a1 = last (history ?a1)"
    by simp_all
  from Cons.prems have 4: "\<forall>newState \<in> set commits. p_current newState \<noteq> Some None"
    by simp
  from Cons.IH [OF 1 2 3 4] obtain a' where
    "activeImage (fold (\<lambda>newState. pushHistory newState i) commits (pushHistory c i s)) = Some a'"
    "history a' = history ?a1 @ committed (visible ?a1) commits"
    "historyIndex a' = int (length (history a')) - 1"
    "visible a' = last (history a')"
    by auto
  with e show ?case
    by simp
qed

lemma length_committed [simp]: "length (committed v commits) = length commits"
  by (induction commits arbitrary: v) simp_all

text \<open>
  Claim C3. Let the active image be a session with one history entry, its visible state,
  and the cursor 0, as \<^verbatim>\<open>handleFileUpload\<close> creates it, and let \<open>N\<close> commits (each with a
  result image, adjustments and a filter present or left out) be applied to it. Then the
  history is the initial snapshot followed by the \<open>N\<close> committed snapshots, and the last
  one is visible. \<open>N\<close> undos succeed and make the initial snapshot visible; \<open>N\<close> redos
  after them succeed and give back the session exactly as it was after the commits, with
  the final committed snapshot visible. An undo at cursor 0 and a redo at the last index
  change nothing.
\<close>

theorem undo_redo_roundtrip:
  assumes "activeImage s = Some a" and "history a = [visible a]" and "historyIndex a = 0"
    and "\<forall>newState \<in> set commits. p_current newState \<noteq> Some None"
  shows "(\<exists>a1 s2 a2 s3.
            activeImage (fold (\<lambda>newState. pushHistory newState (id_img a)) commits s) = Some a1 \<and>
            history a1 = visible a # committed (visible a) commits \<and>
            historyIndex a1 = int (length commits) \<and>
            visible a1 = last (history a1) \<and>
            repeatedly (length commits) undo
              (fold (\<lambda>newState. pushHistory newState (id_img a)) commits s) = Inr s2 \<and>
            activeImage s2 = Some a2 \<and> visible a2 = visible a \<and>
            historyIndex a2 = 0 \<and> history a2 = history a1 \<and>
            repeatedly (length commits) redo s2 = Inr s3 \<and>
            activeImage s3 = Some a1) \<and>
         (\<forall>t b. activeImage t = Some b \<and> historyIndex b = 0 \<longrightarrow> undo t = Inr t) \<and>
         (\<forall>t b. activeImage t = Some b \<and> historyIndex b = int (length (history b)) - 1 \<longrightarrow>
            redo t = Inr t)"
proof -
  let ?n = "length commits"
  let ?s1 = "fold (\<lambda>newState. pushHistory newState (id_img a)) commits s"
  from assms have p: "history a \<noteq> []" "historyIndex a = int (length (history a)) - 1"
    "visible a = last (history a)"
    by simp_all
  from commits_fold [OF assms(1) refl p assms(4)] obtain a1 where
    f: "activeImage ?s1 = Some a1" "history a1 = history a @ committed (visible a) commits"
      "historyIndex a1 = int (length (history a1)) - 1" "visible a1 = last (history a1)"
    by blast
  with assms(2) have a1: "history a1 = visible a # committed (visible a) commits"
    "historyIndex a1 = int ?n" "length (history a1) = Suc ?n"
    by simp_all
  from a1 have ne: "history a1 \<noteq> []"
    by simp
  have "nat (int (length (history a1)) - 1) = length (history a1) - 1"
    by simp
  with f(3,4) last_conv_nth [OF ne] have v1: "visible a1 = history a1 ! nat (historyIndex a1)"
    by simp
  from a1 undo_times [of ?s1 a1 ?n, OF f(1) _ _ v1] obtain s2 a2 where
    s2: "repeatedly ?n undo ?s1 = Inr s2" "activeImage s2 = Some a2"
      "a2 = restore (history a1 ! 0) 0 a1"
    by auto
  from s2(3) a1 have a2: "visible a2 = visible a" "historyIndex a2 = 0" "history a2 = history a1"
    by simp_all
  from a2 a1 have v2: "visible a2 = history a2 ! nat (historyIndex a2)"
    by simp
  from a2 a1 redo_times [of s2 a2 ?n, OF s2(2) _ _ v2] obtain s3 a3 where
    s3: "repeatedly ?n redo s2 = Inr s3" "activeImage s3 = Some a3"
      "a3 = restore (history a1 ! ?n) (int ?n) a2"
    by auto
  from s3(3) s2(3) v1 a1(2) have "a3 = restore (visible a1) (historyIndex a1) a1"
    by simp
  then have "a3 = a1"
    by simp
  with f(1,4) a1(1,2) s2(1,2) a2 s3(1,2) have
    "\<exists>a1 s2 a2 s3.
            activeImage ?s1 = Some a1 \<and>
            history a1 = visible a # committed (visible a) commits \<and>
            historyIndex a1 = int ?n \<and>
            visible a1 = last (history a1) \<and>
            repeatedly ?n undo ?s1 = Inr s2 \<and>
            activeImage s2 = Some a2 \<and> visible a2 = visible a \<and>
            historyIndex a2 = 0 \<and> history a2 = history a1 \<and>
            repeatedly ?n redo s2 = Inr s3 \<and>
            activeImage s3 = Some a1"
    by blast
  moreover have "\<forall>t b. activeImage t = Some b \<and> historyIndex b = 0 \<longrightarrow> undo t = Inr t"
    by (simp add: undo_def)
  moreover have "\<forall>t b. activeImage t = Some b \<and> historyIndex b = int (length (history b)) - 1 \<longrightarrow>
            redo t = Inr t"
    by (simp add: redo_def)
  ultimately show ?thesis
    by blast
qed

lemma example_loaded_activeImage: "activeImage example_loaded = Some example_image"
  by (simp add: activeImage_def example_loaded_images example_loaded_active example_image_def)

theorem undo_redo_roundtrip_witness:
  "activeImage example_loaded = Some example_image \<and>
   history example_image = [visible example_image] \<and>
   historyIndex example_image = 0 \<and>
   p_current (example_commits ! 0) \<noteq> Some None \<and>
   p_current (example_commits ! 1) \<noteq> Some None \<and>
   (\<exists>s2 a2 s3 a3.
      repeatedly 2 undo
        (fold (\<lambda>newState. pushHistory newState ''k3j9x0a1b'') example_commits example_loaded)
        = Inr s2 \<and>
      activeImage s2 = Some a2 \<and> visible a2 = example_entry FilterType_NONE \<and>
      repeatedly 2 redo s2 = Inr s3 \<and> activeImage s3 = Some a3 \<and>
      history a3 =
        [example_entry FilterType_NONE, example_entry SEPIA,
         \<lparr>entry_current = Some ''data:image/png;base64,QUJD'',
          entry_adjustments = DEFAULT_ADJUSTMENTS, entry_filter = SEPIA\<rparr>] \<and>
      visible a3 =
        \<lparr>entry_current = Some ''data:image/png;base64,QUJD'',
         entry_adjustments = DEFAULT_ADJUSTMENTS, entry_filter = SEPIA\<rparr> \<and>
      historyIndex a3 = 2) \<and>
   undo example_loaded = Inr example_loaded \<and>
   redo example_loaded = Inr example_loaded"
proof -
  have h1: "activeImage example_loaded = Some example_image"
    by (rule example_loaded_activeImage)
  have h2: "history example_image = [visible example_image]"
    by (simp add: example_image_def visible_def example_entry_def)
  have h3: "historyIndex example_image = 0"
    by (simp add: example_image_def)
  have h4: "\<forall>newState \<in> set example_commits. p_current newState \<noteq> Some None"
    by (simp add: example_commits_def)
  have l: "length example_commits = 2" and i: "id_img example_image = ''k3j9x0a1b''"
    and v: "visible example_image = example_entry FilterType_NONE"
    by (simp_all add: example_commits_def example_image_def visible_def example_entry_def)
  have c: "committed (example_entry FilterType_NONE) example_commits =
      [example_entry SEPIA,
       \<lparr>entry_current = Some ''data:image/png;base64,QUJD'',
        entry_adjustments = DEFAULT_ADJUSTMENTS, entry_filter = SEPIA\<rparr>]"
    by (simp add: example_commits_def merged_def example_entry_def)
  have e: "historyIndex example_image = int (length (history example_image)) - 1"
    by (simp add: example_image_def)
  note t = undo_redo_roundtrip [OF h1 h2 h3 h4]
  from t h1 h3 e have
    n: "undo example_loaded = Inr example_loaded" "redo example_loaded = Inr example_loaded"
    by blast+
  from t have
    "\<exists>a1 s2 a2 s3.
       activeImage (fold (\<lambda>newState. pushHistory newState (id_img example_image))
                      example_commits example_loaded) = Some a1 \<and>
       history a1 = visible example_image # committed (visible example_image) example_commits \<and>
       historyIndex a1 = int (length example_commits) \<and>
       visible a1 = last (history a1) \<and>
       repeatedly (length example_commits) undo
         (fold (\<lambda>newState. pushHistory newState (id_img example_image)) example_commits
            example_loaded) = Inr s2 \<and>
       activeImage s2 = Some a2 \<and> visible a2 = visible example_image \<and>
       historyIndex a2 = 0 \<and> history a2 = history a1 \<and>
       repeatedly (length example_commits) redo s2 = Inr s3 \<and>
       activeImage s3 = Some a1"
    by (rule conjunct1)
  then have
    "\<exists>s2 a2 s3 a3.
      repeatedly 2 undo
        (fold (\<lambda>newState. pushHistory newState ''k3j9x0a1b'') example_commits example_loaded)
        = Inr s2 \<and>
      activeImage s2 = Some a2 \<and> visible a2 = example_entry FilterType_NONE \<and>
      repeatedly 2 redo s2 = Inr s3 \<and> activeImage s3 = Some a3 \<and>
      history a3 =
        [example_entry FilterType_NONE, example_entry SEPIA,
         \<lparr>entry_current = Some ''data:image/png;base64,QUJD'',
          entry_adjustments = DEFAULT_ADJUSTMENTS, entry_filter = SEPIA\<rparr>] \<and>
      visible a3 =
        \<lparr>entry_current = Some ''data:image/png;base64,QUJD'',
         entry_adjustments = DEFAULT_ADJUSTMENTS, entry_filter = SEPIA\<rparr> \<and>
      historyIndex a3 = 2"
    unfolding l i v c
    apply (elim exE conjE)
    subgoal for a1 s2 a2 s3
      by (rule exI [of _ s2], rule exI [of _ a2], rule exI [of _ s3], rule exI [of _ a1]) simp
    done
  moreover have "p_current (example_commits ! 0) \<noteq> Some None"
    and "p_current (example_commits ! 1) \<noteq> Some None"
    by (simp_all add: example_commits_def)
  ultimately show ?thesis
    using h1 h2 h3 n by blast
qed

section \<open>The history invariant\<close>

lemma session_synced_alt:
  "session_synced img \<longleftrightarrow>
     session_image_filter img \<and>
     entry_adjustments (history img ! nat (historyIndex img)) = adjustments img"
  by (auto simp: session_synced_def session_image_filter_def session_bounds_def index_def visible_def)

lemma activeImage_mem: "activeImage s = Some a \<Longrightarrow> a \<in> set (images s)"
  by (auto simp: activeImage_def find_Some_iff)

lemma distinct_id_eq:
  "distinct (map id_img xs) \<Longrightarrow> a \<in> set xs \<Longrightarrow> img \<in> set xs \<Longrightarrow> id_img img = id_img a \<Longrightarrow>
   img = a"
  by (auto simp: distinct_map inj_on_def)

lemma restore_session:
  "0 \<le> i \<Longrightarrow> i < int (length (history img)) \<Longrightarrow> session_synced (restore (history img ! nat i) i img)"
  by (simp add: session_synced_def session_bounds_def index_def)


lemma session_synced_imp: "session_synced img \<Longrightarrow> session_image_filter img"
  by (simp add: session_synced_alt)

lemma index_Some: "index xs i = Some x \<Longrightarrow> 0 \<le> i \<and> i < int (length xs) \<and> x = xs ! nat i"
  by (auto simp: index_def split: if_splits)

lemma handleAIEdit_images: "images (handleAIEdit m s) = images s"
  by (simp add: handleAIEdit_def split: option.splits)

lemma pushHistory_img_synced:
  "p_current newState \<noteq> Some None \<Longrightarrow> session_image_filter img \<Longrightarrow>
   session_synced (pushHistory_img newState img)"
proof -
  assume n: "p_current newState \<noteq> Some None" and f: "session_image_filter img"
  then have b: "session_bounds img"
    by (simp add: session_image_filter_def)
  then have 0: "0 \<le> historyIndex img"
    by (simp add: session_bounds_def)
  let ?m = "merged newState (visible img)"
  have h: "history (pushHistory_img newState img) =
             take (nat (historyIndex img) + 1) (history img) @ [?m]"
    by (rule pushHistory_img_history [OF 0 n])
  from b have l: "Suc (nat (historyIndex img)) \<le> length (history img)"
    by (auto simp: session_bounds_def)
  then have m: "min (length (history img)) (Suc (nat (historyIndex img))) = Suc (nat (historyIndex img))"
    by simp
  have i: "historyIndex (pushHistory_img newState img) = historyIndex img + 1"
    using 0 unfolding pushHistory_img_index h by (simp add: m)
  have "history (pushHistory_img newState img) ! nat (historyIndex img + 1) = ?m"
    unfolding h using 0 by (simp add: nth_append nat_add_distrib m)
  with 0 i h show ?thesis
    by (simp add: session_synced_def session_bounds_def index_def m
        pushHistory_img_visible [OF n])
qed

lemma history_inv_map:
  assumes inv: "history_inv imgs ids" and id: "\<And>img. id_img (G img) = id_img img"
    and step: "\<And>img. img \<in> set imgs \<Longrightarrow> session_image_filter img \<Longrightarrow>
                 (id_img img \<notin> set ids \<longrightarrow> session_synced img) \<Longrightarrow>
                 session_image_filter (G img) \<and>
                 (id_img img \<notin> set ids' \<longrightarrow> session_synced (G img))"
  shows "history_inv (map G imgs) ids'"
proof -
  have e: "map id_img (map G imgs) = map id_img imgs"
    by (simp add: id)
  from inv have "distinct (map id_img imgs)"
    by (simp add: history_inv_def)
  then have d: "distinct (map id_img (map G imgs))"
    by (simp only: e)
  have "session_image_filter y \<and> (id_img y \<notin> set ids' \<longrightarrow> session_synced y)"
    if "y \<in> set (map G imgs)" for y
  proof -
    from that obtain img where m: "img \<in> set imgs" and y: "y = G img"
      by auto
    from inv m have "session_image_filter img" "id_img img \<notin> set ids \<longrightarrow> session_synced img"
      by (simp_all add: history_inv_def list_all_iff)
    from step [OF m this] y show ?thesis
      by (simp add: id)
  qed
  then have "list_all (\<lambda>img. session_image_filter img \<and>
                 (id_img img \<notin> set ids' \<longrightarrow> session_synced img)) (map G imgs)"
    unfolding list_all_iff by blast
  with d show ?thesis
    unfolding history_inv_def by blast
qed

lemma history_inv_update:
  assumes inv: "history_inv imgs ids"
    and id: "\<And>img. id_img (g img) = id_img img"
    and sync: "\<And>img. img \<in> set imgs \<Longrightarrow> id_img img = i \<Longrightarrow> session_image_filter img \<Longrightarrow>
                 session_synced (g img)"
  shows "history_inv (map (\<lambda>img. if id_img img = i then g img else img) imgs) (removeAll i ids)"
proof (rule history_inv_map [OF inv])
  fix img
  show "id_img (if id_img img = i then g img else img) = id_img img"
    by (simp add: id)
next
  fix img
  assume m: "img \<in> set imgs" and f: "session_image_filter img"
    and s: "id_img img \<notin> set ids \<longrightarrow> session_synced img"
  show "session_image_filter (if id_img img = i then g img else img) \<and>
        (id_img img \<notin> set (removeAll i ids) \<longrightarrow>
           session_synced (if id_img img = i then g img else img))"
  proof (cases "id_img img = i")
    case True
    from sync [OF m True f] True show ?thesis
      by (simp add: session_synced_imp)
  next
    case False
    with f s show ?thesis
      by simp
  qed
qed

lemma history_inv_pushHistory:
  assumes "history_inv (images s) ids" and "p_current newState \<noteq> Some None"
  shows "history_inv (images (pushHistory newState i s)) (removeAll i ids)"
  unfolding pushHistory_def using assms
  by (simp add: history_inv_update pushHistory_img_synced)

lemma history_inv_restore:
  assumes inv: "history_inv (images s) ids" and a: "activeImage s = Some a"
    and h: "index (history a) i = Some h"
  shows "history_inv
           (map (\<lambda>img. if id_img img = id_img a then restore h i img else img) (images s))
           (removeAll (id_img a) ids)"
proof (rule history_inv_update [OF inv])
  fix img
  show "id_img (restore h i img) = id_img img"
    by simp
next
  fix img
  assume m: "img \<in> set (images s)" and e: "id_img img = id_img a"
  from inv have "distinct (map id_img (images s))"
    by (simp add: history_inv_def)
  from distinct_id_eq [OF this activeImage_mem [OF a] m e] have "img = a" .
  with index_Some [OF h] restore_session [of i a] show "session_synced (restore h i img)"
    by simp
qed

lemma history_inv_undo:
  assumes "history_inv (images s) ids" and "undo s = Inr s'"
  shows "history_inv (images s') (moved Undo s ids)"
proof (cases "activeImage s")
  case None
  with assms show ?thesis by (simp add: undo_def)
next
  case (Some a)
  show ?thesis
  proof (cases "historyIndex a \<le> 0")
    case True
    with Some assms show ?thesis by (simp add: undo_def)
  next
    case False
    with Some assms(2) obtain h where
      h: "index (history a) (historyIndex a - 1) = Some h"
      by (cases "index (history a) (historyIndex a - 1)") (simp_all add: undo_def Let_def)
    with False Some assms(2) have
      "images s' = map (\<lambda>img. if id_img img = id_img a
                                     then restore h (historyIndex a - 1) img else img)
                               (images s)"
      by (auto simp: undo_def Let_def)
    with history_inv_restore [OF assms(1) Some h] False Some show ?thesis
      by simp
  qed
qed

lemma history_inv_redo:
  assumes "history_inv (images s) ids" and "redo s = Inr s'"
  shows "history_inv (images s') (moved Redo s ids)"
proof (cases "activeImage s")
  case None
  with assms show ?thesis by (simp add: redo_def)
next
  case (Some a)
  show ?thesis
  proof (cases "historyIndex a \<ge> int (length (history a)) - 1")
    case True
    with Some assms show ?thesis by (simp add: redo_def)
  next
    case False
    with Some assms(2) obtain h where
      h: "index (history a) (historyIndex a + 1) = Some h"
      by (cases "index (history a) (historyIndex a + 1)") (simp_all add: redo_def Let_def)
    with False Some assms(2) have
      "images s' = map (\<lambda>img. if id_img img = id_img a
                                     then restore h (historyIndex a + 1) img else img)
                               (images s)"
      by (auto simp: redo_def Let_def)
    with history_inv_restore [OF assms(1) Some h] False Some show ?thesis
      by simp
  qed
qed

lemma history_inv_handleFileUpload:
  assumes "history_inv (images s) ids" and "newId \<notin> set (map id_img (images s))"
  shows "history_inv (images (handleFileUpload selected newId fileName fileType base64 s)) ids"
proof -
  let ?img = "\<lparr>id_img = newId, original = base64, current = base64, thumbnail = base64,
               mimeType = fileType, name = fileName,
               adjustments = DEFAULT_ADJUSTMENTS, filter_img = FilterType_NONE,
               history = [\<lparr>entry_current = base64, entry_adjustments = DEFAULT_ADJUSTMENTS,
                           entry_filter = FilterType_NONE\<rparr>],
               historyIndex = 0\<rparr>"
  have "session_synced ?img"
    by (simp add: session_synced_def session_bounds_def index_def visible_def)
  with assms session_synced_imp [of ?img] show ?thesis
    by (auto simp: handleFileUpload_def history_inv_def Let_def)
qed

lemma history_inv_updateAdjustment:
  assumes "history_inv (images s) ids"
  shows "history_inv (images (updateAdjustment key v s)) (moved (UpdateAdjustment key v) s ids)"
proof (cases "activeImage s")
  case None
  with assms show ?thesis by (simp add: updateAdjustment_def)
next
  case (Some a)
  have "history_inv
          (map (\<lambda>img. if id_img img = id_img a
                       then img\<lparr>adjustments := setKey key v (adjustments img)\<rparr> else img)
             (images s))
          (id_img a # ids)"
    by (rule history_inv_map [OF assms])
      (auto simp: session_image_filter_def session_bounds_def)
  with Some show ?thesis
    by (simp add: updateAdjustment_def)
qed

lemma history_inv_setFilter:
  assumes "history_inv (images s) ids"
  shows "history_inv (images (setFilter f s)) (moved (SetFilter f) s ids)"
  using assms by (auto simp: setFilter_def history_inv_pushHistory split: option.splits)

lemma history_inv_resume:
  assumes "history_inv (images s) ids"
  shows "history_inv (images (handleAIEdit_resume env s)) (moved (AIResume env) s ids)"
proof (cases "pending s")
  case Nil
  with assms show ?thesis by (simp add: handleAIEdit_resume_def)
next
  case (Cons p ps)
  show ?thesis
  proof (cases "snd (invoke env p)")
    case (Inl err)
    from resume_failure(1) [OF Cons Inl] assms Cons Inl show ?thesis
      by simp
  next
    case (Inr r)
    from resume_success(1) [OF Cons Inr] assms Cons Inr show ?thesis
      by (simp add: history_inv_pushHistory)
  qed
qed

lemma history_inv_step:
  assumes "history_inv (images s) ids" and "admissible a s" and "apply_action a s = Inr s'"
  shows "history_inv (images s') (moved a s ids)"
proof (cases a)
  case (FileLoaded selected newId fileName fileType base64)
  with assms history_inv_handleFileUpload [OF assms(1), of newId selected fileName fileType base64]
  show ?thesis by auto
next
  case Undo
  with assms history_inv_undo show ?thesis by simp
next
  case Redo
  with assms history_inv_redo show ?thesis by simp
next
  case (UpdateAdjustment key v)
  with assms history_inv_updateAdjustment show ?thesis by auto
next
  case (SetFilter f)
  with assms history_inv_setFilter show ?thesis by auto
next
  case (Commit newState imageId)
  with assms history_inv_pushHistory show ?thesis by auto
next
  case (AIEdit m)
  with assms show ?thesis by (auto simp: handleAIEdit_images)
next
  case (AIResume env)
  with assms history_inv_resume show ?thesis by auto
next
  case (BgLoaded res)
  with assms show ?thesis by (auto simp: handleBgUpload_def)
qed (use assms in auto)

lemma history_inv_run:
  "history_inv (images s) ids \<Longrightarrow> admissible_run acts s \<Longrightarrow> run acts s = Inr s' \<Longrightarrow>
   history_inv (images s') (moved_run acts s ids)"
proof (induction acts arbitrary: s ids)
  case Nil
  then show ?case by simp
next
  case (Cons a acts)
  from Cons.prems(3) obtain s1 where s1: "apply_action a s = Inr s1" "run acts s1 = Inr s'"
    by (cases "apply_action a s") simp_all
  from Cons.prems(2) s1 have ad: "admissible a s" "admissible_run acts s1"
    by simp_all
  from Cons.IH [OF history_inv_step [OF Cons.prems(1) ad(1) s1(1)] ad(2) s1(2)] s1 show ?case
    by simp
qed

text \<open>
  Claim C2, as the code has it. Take a run from the initial state by uploads, selections,
  commits, filter changes, AI edits and their outcomes, undos, redos and slider updates,
  in which every new image gets an identifier that no loaded image has and no commit
  carries \<^verbatim>\<open>current: null\<close>. In the state it reaches, every image has
  \<open>0 \<le> historyIndex < history.length\<close>, and the entry under the cursor has the visible
  image and the visible filter. It is the whole visible triple, adjustments included, for
  every session whose sliders were not moved since its last commit, undo or redo.
\<close>

theorem history_invariant:
  assumes "admissible_run acts initialState" and "run acts initialState = Inr s"
  shows "\<forall>img \<in> set (images s).
           0 \<le> historyIndex img \<and> historyIndex img < int (length (history img)) \<and>
           (\<exists>e. index (history img) (historyIndex img) = Some e \<and>
                entry_current e = current img \<and> entry_filter e = filter_img img \<and>
                (id_img img \<notin> set (moved_run acts initialState []) \<longrightarrow> e = visible img))"
proof
  fix img
  assume m: "img \<in> set (images s)"
  have "history_inv (images initialState) []"
    by (simp add: history_inv_def initialState_def)
  from history_inv_run [OF this assms] m have
    "session_image_filter img"
    "id_img img \<notin> set (moved_run acts initialState []) \<longrightarrow> session_synced img"
    by (simp_all add: history_inv_def list_all_iff)
  then show "0 \<le> historyIndex img \<and> historyIndex img < int (length (history img)) \<and>
           (\<exists>e. index (history img) (historyIndex img) = Some e \<and>
                entry_current e = current img \<and> entry_filter e = filter_img img \<and>
                (id_img img \<notin> set (moved_run acts initialState []) \<longrightarrow> e = visible img))"
    by (auto simp: session_image_filter_def session_bounds_def session_synced_def index_def)
qed


lemma example_actions_run:
  "admissible_run example_actions initialState"
  "run example_actions initialState = Inr (updateAdjustment Key_brightness 150 example_loaded)"
  by (simp_all add: example_actions_def example_loaded_def initialState_def)

lemma example_adjusted:
  "images (updateAdjustment Key_brightness 150 example_loaded) =
     [example_image\<lparr>adjustments := DEFAULT_ADJUSTMENTS\<lparr>brightness := 150\<rparr>\<rparr>]"
  by (simp add: updateAdjustment_def example_loaded_activeImage example_loaded_images
      example_image_def)

lemma example_adjusted_activeImage:
  "activeImage (updateAdjustment Key_brightness 150 example_loaded) =
     Some (example_image\<lparr>adjustments := DEFAULT_ADJUSTMENTS\<lparr>brightness := 150\<rparr>\<rparr>)"
  by (simp add: activeImage_def example_adjusted)
    (simp add: updateAdjustment_def example_loaded_activeImage example_loaded_active
      example_image_def)

lemma example_resynced_run:
  "admissible_run example_resynced initialState"
  "run example_resynced initialState =
     Inr (setFilter SEPIA (updateAdjustment Key_brightness 150 example_loaded))"
  by (simp_all add: example_resynced_def example_loaded_def initialState_def)

lemma example_resynced_images:
  "images (setFilter SEPIA (updateAdjustment Key_brightness 150 example_loaded)) =
     [example_resynced_image]"
  by (simp add: setFilter_def example_adjusted_activeImage pushHistory_def example_adjusted
      pushHistory_img_def slice0_def Let_def example_image_def example_resynced_image_def
      example_entry_def)

lemma example_resynced_moved: "moved_run example_resynced initialState [] = []"
proof -
  have "activeImage (handleFileUpload None ''k3j9x0a1b'' ''a.png'' ''image/png'' (Some example_url)
          initialState) = Some example_image"
    using example_loaded_activeImage by (simp add: example_loaded_def)
  moreover have "activeImage (updateAdjustment Key_brightness 150
          (handleFileUpload None ''k3j9x0a1b'' ''a.png'' ''image/png'' (Some example_url)
             initialState)) =
       Some (example_image\<lparr>adjustments := DEFAULT_ADJUSTMENTS\<lparr>brightness := 150\<rparr>\<rparr>)"
    using example_adjusted_activeImage by (simp add: example_loaded_def)
  ultimately show ?thesis
    by (simp add: example_resynced_def example_image_def)
qed

theorem history_invariant_witness:
  "admissible_run example_actions initialState \<and>
   run example_actions initialState = Inr (updateAdjustment Key_brightness 150 example_loaded) \<and>
   0 \<le> historyIndex (example_image\<lparr>adjustments := DEFAULT_ADJUSTMENTS\<lparr>brightness := 150\<rparr>\<rparr>) \<and>
   historyIndex (example_image\<lparr>adjustments := DEFAULT_ADJUSTMENTS\<lparr>brightness := 150\<rparr>\<rparr>) <
     int (length (history (example_image\<lparr>adjustments := DEFAULT_ADJUSTMENTS\<lparr>brightness := 150\<rparr>\<rparr>))) \<and>
   (\<exists>e. index (history (example_image\<lparr>adjustments := DEFAULT_ADJUSTMENTS\<lparr>brightness := 150\<rparr>\<rparr>))
          (historyIndex (example_image\<lparr>adjustments := DEFAULT_ADJUSTMENTS\<lparr>brightness := 150\<rparr>\<rparr>)) =
          Some e \<and>
        entry_current e = current (example_image\<lparr>adjustments := DEFAULT_ADJUSTMENTS\<lparr>brightness := 150\<rparr>\<rparr>) \<and>
        entry_filter e = filter_img (example_image\<lparr>adjustments := DEFAULT_ADJUSTMENTS\<lparr>brightness := 150\<rparr>\<rparr>)) \<and>
   admissible_run example_resynced initialState \<and>
   run example_resynced initialState =
     Inr (setFilter SEPIA (updateAdjustment Key_brightness 150 example_loaded)) \<and>
   moved_run example_resynced initialState [] = [] \<and>
   index (history example_resynced_image) (historyIndex example_resynced_image) =
     Some (visible example_resynced_image)"
proof -
  let ?img = "example_image\<lparr>adjustments := DEFAULT_ADJUSTMENTS\<lparr>brightness := 150\<rparr>\<rparr>"
  have "?img \<in> set (images (updateAdjustment Key_brightness 150 example_loaded))"
    by (simp add: example_adjusted)
  with history_invariant [OF example_actions_run] have
    "0 \<le> historyIndex ?img \<and> historyIndex ?img < int (length (history ?img)) \<and>
     (\<exists>e. index (history ?img) (historyIndex ?img) = Some e \<and>
          entry_current e = current ?img \<and> entry_filter e = filter_img ?img \<and>
          (id_img ?img \<notin> set (moved_run example_actions initialState []) \<longrightarrow> e = visible ?img))"
    by blast
  moreover have "example_resynced_image \<in>
      set (images (setFilter SEPIA (updateAdjustment Key_brightness 150 example_loaded)))"
    and "id_img example_resynced_image \<notin> set (moved_run example_resynced initialState [])"
    by (simp_all add: example_resynced_images example_resynced_moved)
  with history_invariant [OF example_resynced_run] have
    "\<exists>e. index (history example_resynced_image) (historyIndex example_resynced_image) = Some e \<and>
          e = visible example_resynced_image"
    by blast
  ultimately show ?thesis
    using example_actions_run example_resynced_run example_resynced_moved by blast
qed

text \<open>
  Claim C2 as stated fails after a slider update: the upload of one image followed by
  \<^verbatim>\<open>updateAdjustment('brightness', 150)\<close> leaves the entry under the cursor with the
  brightness 100 while the visible brightness is 150.
\<close>

theorem history_invariant_adjustment_counterexample:
  "admissible_run example_actions initialState \<and>
   run example_actions initialState = Inr (updateAdjustment Key_brightness 150 example_loaded) \<and>
   images (updateAdjustment Key_brightness 150 example_loaded) =
     [example_image\<lparr>adjustments := DEFAULT_ADJUSTMENTS\<lparr>brightness := 150\<rparr>\<rparr>] \<and>
   index (history (example_image\<lparr>adjustments := DEFAULT_ADJUSTMENTS\<lparr>brightness := 150\<rparr>\<rparr>))
     (historyIndex (example_image\<lparr>adjustments := DEFAULT_ADJUSTMENTS\<lparr>brightness := 150\<rparr>\<rparr>)) =
     Some (example_entry FilterType_NONE) \<and>
   visible (example_image\<lparr>adjustments := DEFAULT_ADJUSTMENTS\<lparr>brightness := 150\<rparr>\<rparr>) =
     (example_entry FilterType_NONE)\<lparr>entry_adjustments := DEFAULT_ADJUSTMENTS\<lparr>brightness := 150\<rparr>\<rparr> \<and>
   example_entry FilterType_NONE \<noteq>
     (example_entry FilterType_NONE)\<lparr>entry_adjustments := DEFAULT_ADJUSTMENTS\<lparr>brightness := 150\<rparr>\<rparr>"
  by (simp add: example_actions_run example_adjusted)
    (simp add: example_image_def index_def visible_def example_entry_def DEFAULT_ADJUSTMENTS_def)

section \<open>The single-flight gate\<close>

lemma undo_frame:
  "undo s = Inr s' \<Longrightarrow> pending s' = pending s \<and> processing s' = processing s"
  by (auto simp: undo_def Let_def split: option.splits if_splits)

lemma redo_frame:
  "redo s = Inr s' \<Longrightarrow> pending s' = pending s \<and> processing s' = processing s"
  by (auto simp: redo_def Let_def split: option.splits if_splits)

lemma handleAIEdit_gate: "gate_inv s \<Longrightarrow> gate_inv (handleAIEdit m s)"
  by (auto simp: gate_inv_def handleAIEdit_def split: option.splits)

lemma handleAIEdit_resume_gate: "gate_inv s \<Longrightarrow> gate_inv (handleAIEdit_resume env s)"
  by (cases "pending s")
    (auto simp: gate_inv_def handleAIEdit_resume_def pushHistory_def split: sum.splits)

lemma handlers_frame:
  "pending (handleFileUpload selected newId fileName fileType base64 s) = pending s"
  "processing (handleFileUpload selected newId fileName fileType base64 s) = processing s"
  "pending (updateAdjustment key v s) = pending s"
  "processing (updateAdjustment key v s) = processing s"
  "pending (pushHistory newState imageId s) = pending s"
  "processing (pushHistory newState imageId s) = processing s"
  "pending (setFilter f s) = pending s"
  "processing (setFilter f s) = processing s"
  "pending (handleBgUpload res s) = pending s"
  "processing (handleBgUpload res s) = processing s"
  by (simp_all add: handleFileUpload_def Let_def updateAdjustment_def setFilter_def
      pushHistory_def handleBgUpload_def split: option.splits)

lemma apply_action_gate:
  assumes "gate_inv s" and "apply_action a s = Inr s'"
  shows "gate_inv s'"
proof (cases a)
  case Undo
  with assms undo_frame [of s s'] show ?thesis by (simp add: gate_inv_def)
next
  case Redo
  with assms redo_frame [of s s'] show ?thesis by (simp add: gate_inv_def)
next
  case (AIEdit m)
  with assms handleAIEdit_gate show ?thesis by auto
next
  case (AIResume env)
  with assms handleAIEdit_resume_gate show ?thesis by auto
qed (use assms in \<open>auto simp: gate_inv_def handlers_frame\<close>)

lemma run_gate: "gate_inv s \<Longrightarrow> run acts s = Inr s' \<Longrightarrow> gate_inv s'"
proof (induction acts arbitrary: s)
  case Nil
  then show ?case by simp
next
  case (Cons a acts)
  from Cons.prems(2) obtain s1 where s1: "apply_action a s = Inr s1" "run acts s1 = Inr s'"
    by (cases "apply_action a s") simp_all
  from Cons.IH [OF apply_action_gate [OF Cons.prems(1) s1(1)] s1(2)] show ?case .
qed

lemma handleAIEdit_closed: "isProcessing (processing s) \<Longrightarrow> handleAIEdit m s = s"
  by (simp add: handleAIEdit_def split: option.splits)

text \<open>
  Claim C9. In every state reached from the initial state by user actions and by the
  continuations of suspended calls: while \<^verbatim>\<open>processing.isProcessing\<close> is set,
  \<^verbatim>\<open>handleAIEdit\<close> returns the state as it is (no call is started, and the images and the
  processing state stay as they are); at most one call is suspended, whatever the number
  of images, and one is suspended exactly when the flag is set.
\<close>

theorem single_flight:
  assumes "run acts initialState = Inr s"
  shows "(isProcessing (processing s) \<longrightarrow> handleAIEdit m s = s) \<and>
         length (pending s) \<le> 1 \<and>
         (pending s \<noteq> [] \<longleftrightarrow> isProcessing (processing s))"
proof -
  have "gate_inv initialState"
    by (simp add: gate_inv_def initialState_def)
  from run_gate [OF this assms] handleAIEdit_closed [of s m] show ?thesis
    by (auto simp: gate_inv_def)
qed

lemma example_edit_run:
  "run example_edit initialState = Inr (handleAIEdit REMOVE_BG example_loaded)"
  by (simp add: example_edit_def example_loaded_def)

theorem single_flight_witness:
  "run example_edit initialState = Inr (handleAIEdit REMOVE_BG example_loaded) \<and>
   isProcessing (processing (handleAIEdit REMOVE_BG example_loaded)) \<and>
   pending (handleAIEdit REMOVE_BG example_loaded) = [example_pending] \<and>
   handleAIEdit ENHANCE (handleAIEdit REMOVE_BG example_loaded) =
     handleAIEdit REMOVE_BG example_loaded"
proof -
  have p: "isProcessing (processing (handleAIEdit REMOVE_BG example_loaded))"
    by (simp add: handleAIEdit_def example_loaded_activeImage example_loaded_rest)
  from single_flight [OF example_edit_run, of ENHANCE] p example_edit_run example_started(2)
  show ?thesis
    by blast
qed

end
